theory Spec2Isabelle
  imports Main "HOL-Library.Word"
begin

section \<open>Raster images\<close>

text \<open>
  The script \<^verbatim>\<open>index.py\<close> is three functions over images of the Pillow library. An image
  is modelled by its \<^verbatim>\<open>size\<close> (width, height), its pixels (by column \<open>x\<close> and row \<open>y\<close>)
  and its \<^verbatim>\<open>info\<close> dictionary. The pixel type is the mode: a byte for the modes L and P,
  three bytes for RGB, four for RGBA. Channel values are 8-bit words, compared unsigned.
\<close>

type_synonym byte = "8 word"
type_synonym rgb = "byte \<times> byte \<times> byte"
type_synonym rgba = "byte \<times> byte \<times> byte \<times> byte"

datatype error = IndexError | ValueError | FileNotFoundError | LibraryError string

record 'p image =
  im_size :: "nat \<times> nat"
  pix :: "nat \<Rightarrow> nat \<Rightarrow> 'p"
  info :: "string \<rightharpoonup> int"

text \<open>A palette image (mode P): indices into a palette of up to 256 colours.\<close>

record p_image = "byte image" +
  palette :: "byte \<Rightarrow> rgb"

text \<open>
  The image handed to \<^verbatim>\<open>mask_rounded_corners\<close> has any mode: either it is RGBA already,
  or it is an image as the decoder holds it (a frame of a GIF file, say), of a type
  \<open>'s\<close> that the model does not look into.
\<close>

datatype 's pil_image = RGBA "rgba image" | Other 's

text \<open>What the frame iterator does when asked for the next frame: stop, yield, or raise.\<close>

datatype 's frames = Stop | Yield 's "'s frames" | Raise error

text \<open>The keyword arguments of \<^verbatim>\<open>Image.save\<close> as the script passes them.\<close>

record save_args =
  first_frame :: p_image
  save_all :: bool
  append_images :: "p_image list"
  loop :: int
  disposal :: int
  optimize :: bool

text \<open>The result of colour quantisation: a palette, an index for every pixel, the metadata.\<close>

record quantized =
  q_palette :: "byte \<Rightarrow> rgb"
  q_index :: "nat \<Rightarrow> nat \<Rightarrow> byte"
  q_info :: "string \<rightharpoonup> int"

section \<open>The library primitives the script calls\<close>

text \<open>
  Pillow is not part of the repository. Its primitives whose results the script does not
  determine are parameters of the model, collected in one record:
  \<^item> \<open>src_size\<close>, \<open>src_info\<close>, \<open>to_rgba\<close>: size, metadata and the pixels of
    \<^verbatim>\<open>convert("RGBA")\<close> of an image of another mode (loading the frame may raise);
  \<^item> \<open>pieslice_cover\<close>, \<open>ellipse_cover\<close>: the pixels that the rasteriser paints for a filled
    pie slice (box, start and end angle) and for a filled ellipse (box);
  \<^item> \<open>gaussian\<close>: the pixels of \<^verbatim>\<open>filter(ImageFilter.GaussianBlur(r))\<close>, or the exception
    that the filter raises;
  \<^item> \<open>quantize\<close>: \<^verbatim>\<open>convert('P', palette=Image.ADAPTIVE, colors=n)\<close> of an RGB image;
  \<^item> \<open>blend\<close>: what \<^verbatim>\<open>paste\<close> writes where the mask is neither 0 nor 255;
  \<^item> \<open>image_open\<close>: \<^verbatim>\<open>Image.open\<close> followed by \<^verbatim>\<open>ImageSequence.Iterator\<close>, on a file system
    with files of a type \<open>'f\<close>;
  \<^item> \<open>gif_save\<close>: \<^verbatim>\<open>Image.save\<close>, which returns the file system it leaves and the
    exception it raised, if any.
\<close>

record ('s, 'f) pillow =
  src_size :: "'s \<Rightarrow> nat \<times> nat"
  src_info :: "'s \<Rightarrow> (string \<rightharpoonup> int)"
  to_rgba :: "'s \<Rightarrow> error + (nat \<Rightarrow> nat \<Rightarrow> rgba)"
  pieslice_cover :: "int \<times> int \<times> int \<times> int \<Rightarrow> int \<Rightarrow> int \<Rightarrow> nat \<Rightarrow> nat \<Rightarrow> bool"
  ellipse_cover :: "int \<times> int \<times> int \<times> int \<Rightarrow> nat \<Rightarrow> nat \<Rightarrow> bool"
  gaussian :: "int \<Rightarrow> byte image \<Rightarrow> error + (nat \<Rightarrow> nat \<Rightarrow> byte)"
  quantize :: "nat \<Rightarrow> rgb image \<Rightarrow> quantized"
  blend :: "byte \<Rightarrow> byte \<Rightarrow> byte \<Rightarrow> byte"
  image_open :: "(string \<rightharpoonup> 'f) \<Rightarrow> string \<Rightarrow> error + 's frames"
  gif_save :: "string \<Rightarrow> save_args \<Rightarrow> (string \<rightharpoonup> 'f) \<Rightarrow> error option \<times> (string \<rightharpoonup> 'f)"

text \<open>\<^verbatim>\<open>im.getpixel((x, y))\<close>: outside the image it raises.\<close>

definition getpixel :: "('p, 'm) image_scheme \<Rightarrow> nat \<times> nat \<Rightarrow> error + 'p" where
  "getpixel im xy =
     (case xy of (x, y) \<Rightarrow>
        if x < fst (im_size im) \<and> y < snd (im_size im) then Inr (pix im x y)
        else Inl IndexError)"

text \<open>
  \<^verbatim>\<open>im.convert("RGBA")\<close>: a copy when the image is RGBA already; otherwise the library
  converts, to an image of the same size.
\<close>

definition convert_RGBA :: "('s, 'f) pillow \<Rightarrow> 's pil_image \<Rightarrow> error + rgba image" where
  "convert_RGBA P im =
     (case im of
        RGBA r \<Rightarrow> Inr r
      | Other s \<Rightarrow>
          (case to_rgba P s of
             Inl e \<Rightarrow> Inl e
           | Inr px \<Rightarrow> Inr \<lparr>im_size = src_size P s, pix = px, info = src_info P s\<rparr>))"

text \<open>\<^verbatim>\<open>Image.new("L", size, color)\<close>.\<close>

definition Image_new_L :: "nat \<times> nat \<Rightarrow> byte \<Rightarrow> byte image" where
  "Image_new_L sz color = \<lparr>im_size = sz, pix = (\<lambda>x y. color), info = Map.empty\<rparr>"

text \<open>Drawing writes \<open>fill\<close> into the covered pixels that lie inside the image.\<close>

definition paint :: "(nat \<Rightarrow> nat \<Rightarrow> bool) \<Rightarrow> byte \<Rightarrow> byte image \<Rightarrow> byte image" where
  "paint cover fill im =
     im\<lparr>pix := (\<lambda>x y. if x < fst (im_size im) \<and> y < snd (im_size im) \<and> cover x y
                       then fill else pix im x y)\<rparr>"

text \<open>A filled rectangle covers its box, both corner points included.\<close>

definition rectangle_cover :: "int \<times> int \<times> int \<times> int \<Rightarrow> nat \<Rightarrow> nat \<Rightarrow> bool" where
  "rectangle_cover xy x y =
     (case xy of (x0, y0, x1, y1) \<Rightarrow>
        x0 \<le> int x \<and> int x \<le> x1 \<and> y0 \<le> int y \<and> int y \<le> y1)"

text \<open>
  The drawing primitives refuse a box whose second point is left of or above its first:
  \<^verbatim>\<open>ValueError\<close> (``x1 must be greater than or equal to x0'').
\<close>

definition valid_box :: "int \<times> int \<times> int \<times> int \<Rightarrow> bool" where
  "valid_box xy = (case xy of (x0, y0, x1, y1) \<Rightarrow> x0 \<le> x1 \<and> y0 \<le> y1)"

definition draw_rectangle ::
  "int \<times> int \<times> int \<times> int \<Rightarrow> byte \<Rightarrow> byte image \<Rightarrow> error + byte image" where
  "draw_rectangle xy fill im =
     (if valid_box xy then Inr (paint (rectangle_cover xy) fill im) else Inl ValueError)"

definition draw_pieslice ::
  "('s, 'f) pillow \<Rightarrow> int \<times> int \<times> int \<times> int \<Rightarrow> int \<Rightarrow> int \<Rightarrow> byte \<Rightarrow> byte image \<Rightarrow>
     error + byte image" where
  "draw_pieslice P xy start stop fill im =
     (if valid_box xy then Inr (paint (pieslice_cover P xy start stop) fill im)
      else Inl ValueError)"

definition draw_ellipse ::
  "('s, 'f) pillow \<Rightarrow> int \<times> int \<times> int \<times> int \<Rightarrow> byte \<Rightarrow> byte image \<Rightarrow> error + byte image" where
  "draw_ellipse P xy fill im =
     (if valid_box xy then Inr (paint (ellipse_cover P xy) fill im) else Inl ValueError)"

text \<open>
  The corners of \<^verbatim>\<open>rounded_rectangle\<close>, each a pie slice with its box and its angles: two
  halves when the left and right corners are joined (\<open>full_x\<close>) or the top and bottom ones
  (\<open>full_y\<close>), four quarters otherwise; \<open>d\<close> is the diameter.
\<close>

definition corner_parts ::
  "int \<times> int \<times> int \<times> int \<Rightarrow> int \<Rightarrow> bool \<Rightarrow> bool \<Rightarrow>
     ((int \<times> int \<times> int \<times> int) \<times> int \<times> int) list" where
  "corner_parts xy d full_x full_y =
     (case xy of (x0, y0, x1, y1) \<Rightarrow>
        if full_x then
          [((x0, y0, x0 + d, y0 + d), 180, 360),
           ((x0, y1 - d, x0 + d, y1), 0, 180)]
        else if full_y then
          [((x0, y0, x0 + d, y0 + d), 90, 270),
           ((x1 - d, y0, x1, y0 + d), 270, 90)]
        else
          [((x0, y0, x0 + d, y0 + d), 180, 270),
           ((x1 - d, y0, x1, y0 + d), 270, 360),
           ((x1 - d, y1 - d, x1, y1), 0, 90),
           ((x0, y1 - d, x0 + d, y1), 90, 180)])"

text \<open>The loop that draws the parts; the first one that raises ends it.\<close>

fun draw_parts ::
  "('s, 'f) pillow \<Rightarrow> ((int \<times> int \<times> int \<times> int) \<times> int \<times> int) list \<Rightarrow> byte \<Rightarrow> byte image \<Rightarrow>
     error + byte image" where
  "draw_parts P [] fill im = Inr im"
| "draw_parts P (part # parts) fill im =
     (case part of (xy, start, stop) \<Rightarrow>
        (case draw_pieslice P xy start stop fill im of
           Inl e \<Rightarrow> Inl e
         | Inr im' \<Rightarrow> draw_parts P parts fill im'))"

text \<open>
  \<^verbatim>\<open>draw.rounded_rectangle(xy, radius=radius, fill=fill)\<close>, as Pillow's \<^verbatim>\<open>ImageDraw\<close> does it
  with all four corners rounded and no outline. When the diameter reaches across the box
  in both directions the shape is an ellipse; when the diameter is 0 it is the rectangle;
  otherwise the corners are drawn as pie slices and the rest as rectangles: the middle
  one over the full height (or, under \<open>full_x\<close>, the full width), and the left and the right
  one between the corners. A negative radius makes the box of the first corner invalid,
  and drawing it raises.
\<close>

definition rounded_rectangle ::
  "('s, 'f) pillow \<Rightarrow> int \<times> int \<times> int \<times> int \<Rightarrow> int \<Rightarrow> byte \<Rightarrow> byte image \<Rightarrow>
     error + byte image" where
  "rounded_rectangle P xy radius fill im =
     (case xy of (x0, y0, x1, y1) \<Rightarrow>
        if x1 < x0 \<or> y1 < y0 then Inl ValueError
        else
          let d = radius * 2;
              full_x = (d \<ge> x1 - x0 - 1);
              d = (if full_x then x1 - x0 else d);
              full_y = (d \<ge> y1 - y0 - 1);
              d = (if full_y then y1 - y0 else d)
          in if full_x \<and> full_y then draw_ellipse P xy fill im
             else if d = 0 then draw_rectangle xy fill im
             else
               let r = d div 2
               in (case draw_parts P (corner_parts xy d full_x full_y) fill im of
                     Inl e \<Rightarrow> Inl e
                   | Inr im1 \<Rightarrow>
                       (case (if full_x
                              then draw_rectangle (x0, y0 + r + 1, x1, y1 - r - 1) fill im1
                              else draw_rectangle (x0 + r + 1, y0, x1 - r - 1, y1) fill im1) of
                          Inl e \<Rightarrow> Inl e
                        | Inr im2 \<Rightarrow>
                            if \<not> full_x \<and> \<not> full_y then
                              (case draw_rectangle (x0, y0 + r + 1, x0 + r, y1 - r - 1) fill im2 of
                                 Inl e \<Rightarrow> Inl e
                               | Inr im3 \<Rightarrow>
                                   draw_rectangle (x1 - r, y0 + r + 1, x1, y1 - r - 1) fill im3)
                            else Inr im2)))"

text \<open>
  \<^verbatim>\<open>mask.filter(ImageFilter.GaussianBlur(r))\<close>: a new image of the same size, unless the
  filter raises.
\<close>

definition GaussianBlur :: "('s, 'f) pillow \<Rightarrow> int \<Rightarrow> byte image \<Rightarrow> error + byte image" where
  "GaussianBlur P r im =
     (case gaussian P r im of Inl e \<Rightarrow> Inl e | Inr px \<Rightarrow> Inr (im\<lparr>pix := px\<rparr>))"

text \<open>\<^verbatim>\<open>result.putalpha(mask)\<close>: the band A becomes the mask; the sizes must agree.\<close>

definition putalpha :: "rgba image \<Rightarrow> byte image \<Rightarrow> error + rgba image" where
  "putalpha im mask_im =
     (if im_size mask_im \<noteq> im_size im then Inl ValueError
      else Inr (im\<lparr>pix := (\<lambda>x y. case pix im x y of (r, g, b, a) \<Rightarrow> (r, g, b, pix mask_im x y))\<rparr>))"

section \<open>mask\_rounded\_corners\<close>

text \<open>
  The function on image values; the two radii are integers. The variable \<^verbatim>\<open>mask\<close> of the
  source is \<open>mask_im\<close> here, and \<^verbatim>\<open>pil_img.copy()\<close> is the image itself: which object is
  written into is the matter of the section on image objects below.
\<close>

definition mask_rounded_corners ::
  "('s, 'f) pillow \<Rightarrow> 's pil_image \<Rightarrow> int \<Rightarrow> int \<Rightarrow> error + rgba image" where
  "mask_rounded_corners P pil_img corner_radius blur_radius =
     (case convert_RGBA P pil_img of
        Inl e \<Rightarrow> Inl e
      | Inr pil_img' \<Rightarrow>
          (case im_size pil_img' of (w, h) \<Rightarrow>
             (case rounded_rectangle P (0, 0, int w, int h) corner_radius 255
                     (Image_new_L (w, h) 0) of
                Inl e \<Rightarrow> Inl e
              | Inr mask_im \<Rightarrow>
                  (case (if blur_radius > 0 then GaussianBlur P blur_radius mask_im
                         else Inr mask_im) of
                     Inl e \<Rightarrow> Inl e
                   | Inr mask_im' \<Rightarrow>
                       let result = pil_img'
                       in putalpha result mask_im'))))"

section \<open>transparent\_indexed\_gif\_frame\<close>

text \<open>\<^verbatim>\<open>rgba_frame.getchannel('A')\<close>.\<close>

definition getchannel_A :: "rgba image \<Rightarrow> byte image" where
  "getchannel_A im =
     \<lparr>im_size = im_size im, pix = (\<lambda>x y. case pix im x y of (r, g, b, a) \<Rightarrow> a), info = info im\<rparr>"

text \<open>\<^verbatim>\<open>rgba_frame.convert('RGB')\<close> drops the band A.\<close>

definition convert_RGB :: "rgba image \<Rightarrow> rgb image" where
  "convert_RGB im =
     \<lparr>im_size = im_size im, pix = (\<lambda>x y. case pix im x y of (r, g, b, a) \<Rightarrow> (r, g, b)),
      info = info im\<rparr>"

text \<open>\<^verbatim>\<open>.convert('P', palette=Image.ADAPTIVE, colors=n)\<close>: the library quantises.\<close>

definition convert_P_adaptive :: "('s, 'f) pillow \<Rightarrow> nat \<Rightarrow> rgb image \<Rightarrow> p_image" where
  "convert_P_adaptive P colors im =
     (let q = quantize P colors im
      in \<lparr>im_size = im_size im, pix = q_index q, info = q_info q, palette = q_palette q\<rparr>)"

text \<open>\<^verbatim>\<open>Image.eval(im, f)\<close> applies \<open>f\<close> to every pixel.\<close>

definition Image_eval :: "byte image \<Rightarrow> (byte \<Rightarrow> byte) \<Rightarrow> byte image" where
  "Image_eval im f = im\<lparr>pix := (\<lambda>x y. f (pix im x y))\<rparr>"

text \<open>
  \<^verbatim>\<open>im.paste(color, mask)\<close> over the whole image: where the mask is 255 the colour is
  written, where it is 0 the pixel stays, in between the library blends. The mask has
  to have the size of the image.
\<close>

definition paste :: "('s, 'f) pillow \<Rightarrow> p_image \<Rightarrow> byte \<Rightarrow> byte image \<Rightarrow> error + p_image" where
  "paste P im color mask_im =
     (if im_size mask_im \<noteq> im_size im then Inl ValueError
      else Inr (im\<lparr>pix := (\<lambda>x y. if pix mask_im x y = 255 then color
                                  else if pix mask_im x y = 0 then pix im x y
                                  else blend P (pix im x y) color (pix mask_im x y))\<rparr>))"

text \<open>The function: the threshold on the band A, and the index 255 for what is transparent.\<close>

definition transparent_indexed_gif_frame :: "('s, 'f) pillow \<Rightarrow> rgba image \<Rightarrow> error + p_image" where
  "transparent_indexed_gif_frame P rgba_frame =
     (let alpha = getchannel_A rgba_frame;
          pal_frame = convert_P_adaptive P 255 (convert_RGB rgba_frame);
          mask_im = Image_eval alpha (\<lambda>a. if a \<le> 128 then 255 else 0)
      in case paste P pal_frame 255 mask_im of
           Inl e \<Rightarrow> Inl e
         | Inr pal_frame' \<Rightarrow> Inr (pal_frame'\<lparr>info := (info pal_frame')(''transparency'' \<mapsto> 255)\<rparr>))"

section \<open>create\_rounded\_corners\_gif\<close>

text \<open>What the script can change outside itself: the files, and the lines it printed.\<close>

record 'f world =
  files :: "string \<rightharpoonup> 'f"
  stdout :: "string list"

definition print :: "string \<Rightarrow> 'f world \<Rightarrow> 'f world" where
  "print line w = w\<lparr>stdout := stdout w @ [line]\<rparr>"

text \<open>The body of the loop over the frames: an exception of any step leaves the loop.\<close>

definition round_frame :: "('s, 'f) pillow \<Rightarrow> 's \<Rightarrow> int \<Rightarrow> int \<Rightarrow> error + p_image" where
  "round_frame P frame corner_radius blur_radius =
     (case convert_RGBA P (Other frame) of
        Inl e \<Rightarrow> Inl e
      | Inr rgba_frame \<Rightarrow>
          (case mask_rounded_corners P (RGBA rgba_frame) corner_radius blur_radius of
             Inl e \<Rightarrow> Inl e
           | Inr rounded \<Rightarrow> transparent_indexed_gif_frame P rounded))"

text \<open>The loop, with the list \<^verbatim>\<open>frames\<close> it appends to.\<close>

fun process_frames ::
  "('s, 'f) pillow \<Rightarrow> 's frames \<Rightarrow> int \<Rightarrow> int \<Rightarrow> p_image list \<Rightarrow> error + p_image list" where
  "process_frames P Stop corner_radius blur_radius frames = Inr frames"
| "process_frames P (Raise e) corner_radius blur_radius frames = Inl e"
| "process_frames P (Yield frame rest) corner_radius blur_radius frames =
     (case round_frame P frame corner_radius blur_radius of
        Inl e \<Rightarrow> Inl e
      | Inr pal_frame \<Rightarrow> process_frames P rest corner_radius blur_radius (frames @ [pal_frame]))"

text \<open>
  The function returns the exception that ended it, if any, and the world it leaves.
\<close>

definition create_rounded_corners_gif ::
  "('s, 'f) pillow \<Rightarrow> string \<Rightarrow> string \<Rightarrow> int \<Rightarrow> int \<Rightarrow> 'f world \<Rightarrow> error option \<times> 'f world" where
  "create_rounded_corners_gif P input_gif output_gif corner_radius blur_radius w =
     (case image_open P (files w) input_gif of
        Inl e \<Rightarrow> (Some e, w)
      | Inr orig_gif \<Rightarrow>
          (case process_frames P orig_gif corner_radius blur_radius [] of
             Inl e \<Rightarrow> (Some e, w)
           | Inr frames \<Rightarrow>
               if frames \<noteq> [] then
                 (case gif_save P output_gif
                         \<lparr>first_frame = frames ! 0, save_all = True, append_images = drop 1 frames,
                          loop = 0, disposal = 2, optimize = False\<rparr> (files w) of
                    (Some e, fs) \<Rightarrow> (Some e, w\<lparr>files := fs\<rparr>)
                  | (None, fs) \<Rightarrow>
                      (None, print (''Saved rounded-corner GIF to: '' @ output_gif) (w\<lparr>files := fs\<rparr>)))
               else (None, print (''No frames found in'' @ '' '' @ input_gif) w)))"

section \<open>Derived notions\<close>

text \<open>The size of an image of any mode, the band A of a pixel, a pixel of a result.\<close>

definition pil_size :: "('s, 'f) pillow \<Rightarrow> 's pil_image \<Rightarrow> nat \<times> nat" where
  "pil_size P im = (case im of RGBA r \<Rightarrow> im_size r | Other s \<Rightarrow> src_size P s)"

definition alpha_of :: "rgba \<Rightarrow> byte" where
  "alpha_of p = (case p of (r, g, b, a) \<Rightarrow> a)"

definition rgb_of :: "rgba \<Rightarrow> rgb" where
  "rgb_of p = (case p of (r, g, b, a) \<Rightarrow> (r, g, b))"

definition pixel_at :: "error + ('p, 'm) image_scheme \<Rightarrow> nat \<times> nat \<Rightarrow> error + 'p" where
  "pixel_at res xy = (case res of Inl e \<Rightarrow> Inl e | Inr im \<Rightarrow> getpixel im xy)"

text \<open>
  The mask that \<^verbatim>\<open>mask_rounded_corners\<close> computes for a frame of size \<open>sz\<close>: the new image,
  the rounded rectangle drawn on it, the blur when its radius is positive; or the
  exception of the drawing or of the blur.
\<close>

definition corner_mask ::
  "('s, 'f) pillow \<Rightarrow> nat \<times> nat \<Rightarrow> int \<Rightarrow> int \<Rightarrow> error + byte image" where
  "corner_mask P sz corner_radius blur_radius =
     (case rounded_rectangle P (0, 0, int (fst sz), int (snd sz)) corner_radius 255
             (Image_new_L sz 0) of
        Inl e \<Rightarrow> Inl e
      | Inr m \<Rightarrow> if blur_radius > 0 then GaussianBlur P blur_radius m else Inr m)"

text \<open>The two stages in a row, as the loop applies them to a frame.\<close>

definition rounded_indexed_frame ::
  "('s, 'f) pillow \<Rightarrow> 's pil_image \<Rightarrow> int \<Rightarrow> int \<Rightarrow> error + p_image" where
  "rounded_indexed_frame P im corner_radius blur_radius =
     (case mask_rounded_corners P im corner_radius blur_radius of
        Inl e \<Rightarrow> Inl e
      | Inr rounded \<Rightarrow> transparent_indexed_gif_frame P rounded)"

text \<open>
  What the quantiser guarantees: asked for \<open>n\<close> colours, it uses the indices below \<open>n\<close>.
\<close>

definition within_colors :: "('s, 'f) pillow \<Rightarrow> bool" where
  "within_colors P \<longleftrightarrow>
     (\<forall>colors im x y. 0 < colors \<longrightarrow> unat (q_index (quantize P colors im) x y) < colors)"

text \<open>
  What a rounded rectangle with four separate corners of radius \<open>r\<close> covers: the four
  quarter pie slices, the middle rectangle, the left and the right one.
\<close>

definition quarters_cover ::
  "('s, 'f) pillow \<Rightarrow> int \<times> int \<times> int \<times> int \<Rightarrow> int \<Rightarrow> nat \<Rightarrow> nat \<Rightarrow> bool" where
  "quarters_cover P xy r x y =
     (case xy of (x0, y0, x1, y1) \<Rightarrow>
        pieslice_cover P (x0, y0, x0 + r * 2, y0 + r * 2) 180 270 x y \<or>
        pieslice_cover P (x1 - r * 2, y0, x1, y0 + r * 2) 270 360 x y \<or>
        pieslice_cover P (x1 - r * 2, y1 - r * 2, x1, y1) 0 90 x y \<or>
        pieslice_cover P (x0, y1 - r * 2, x0 + r * 2, y1) 90 180 x y \<or>
        rectangle_cover (x0 + r + 1, y0, x1 - r - 1, y1) x y \<or>
        rectangle_cover (x0, y0 + r + 1, x0 + r, y1 - r - 1) x y \<or>
        rectangle_cover (x1 - r, y0 + r + 1, x1, y1 - r - 1) x y)"

section \<open>An instance of the library\<close>

text \<open>
  For evaluating the model on concrete frames: a decoder whose frames are RGBA images
  (\<open>None\<close> is a frame whose data cannot be loaded), a rasteriser that paints the pixels
  whose centre lies in the ellipse inscribed in the box and, for a pie slice, in the
  quadrant or half between the two angles (clockwise from three o'clock), a 3 by 3 mean
  in place of the blur, a quantiser with two colours, and files that hold either frames to
  read or what \<^verbatim>\<open>save\<close> was given.
\<close>

definition demo_ellipse :: "int \<times> int \<times> int \<times> int \<Rightarrow> nat \<Rightarrow> nat \<Rightarrow> bool" where
  "demo_ellipse xy x y =
     (case xy of (x0, y0, x1, y1) \<Rightarrow>
        let dx = 2 * int x - (x0 + x1); dy = 2 * int y - (y0 + y1);
            a = x1 - x0; b = y1 - y0
        in x0 \<le> int x \<and> int x \<le> x1 \<and> y0 \<le> int y \<and> int y \<le> y1 \<and>
           dx * dx * (b * b) + dy * dy * (a * a) \<le> a * a * (b * b))"

definition demo_sector :: "int \<Rightarrow> int \<Rightarrow> int \<Rightarrow> int \<Rightarrow> bool" where
  "demo_sector start stop dx dy =
     (if (start, stop) = (0, 90) then 0 \<le> dx \<and> 0 \<le> dy
      else if (start, stop) = (90, 180) then dx \<le> 0 \<and> 0 \<le> dy
      else if (start, stop) = (180, 270) then dx \<le> 0 \<and> dy \<le> 0
      else if (start, stop) = (270, 360) then 0 \<le> dx \<and> dy \<le> 0
      else if (start, stop) = (0, 180) then 0 \<le> dy
      else if (start, stop) = (180, 360) then dy \<le> 0
      else if (start, stop) = (90, 270) then dx \<le> 0
      else if (start, stop) = (270, 90) then 0 \<le> dx
      else True)"

definition demo_pieslice ::
  "int \<times> int \<times> int \<times> int \<Rightarrow> int \<Rightarrow> int \<Rightarrow> nat \<Rightarrow> nat \<Rightarrow> bool" where
  "demo_pieslice xy start stop x y =
     (case xy of (x0, y0, x1, y1) \<Rightarrow>
        demo_ellipse xy x y \<and>
        demo_sector start stop (2 * int x - (x0 + x1)) (2 * int y - (y0 + y1)))"

definition clamp_coord :: "nat \<Rightarrow> int \<Rightarrow> nat" where
  "clamp_coord n i = nat (max 0 (min (int n - 1) i))"

definition demo_mean :: "int \<Rightarrow> byte image \<Rightarrow> nat \<Rightarrow> nat \<Rightarrow> byte" where
  "demo_mean r im x y =
     (let w = fst (im_size im); h = snd (im_size im);
          v = (\<lambda>dx dy. unat (pix im (clamp_coord w (int x + dx)) (clamp_coord h (int y + dy))))
      in of_nat ((v (-1) (-1) + v 0 (-1) + v 1 (-1) +
                  v (-1) 0 + v 0 0 + v 1 0 +
                  v (-1) 1 + v 0 1 + v 1 1) div 9))"

definition demo_quantize :: "nat \<Rightarrow> rgb image \<Rightarrow> quantized" where
  "demo_quantize colors im =
     \<lparr>q_palette = (\<lambda>i. if i = 0 then (0, 0, 0) else (255, 255, 255)),
      q_index = (\<lambda>x y. if colors \<le> 1 then 0
                        else case pix im x y of (r, g, b) \<Rightarrow> if r < 128 then 0 else 1),
      q_info = info im\<rparr>"

definition demo_open ::
  "(string \<rightharpoonup> rgba image option list + save_args) \<Rightarrow> string \<Rightarrow>
     error + rgba image option frames" where
  "demo_open fs path =
     (case fs path of
        None \<Rightarrow> Inl FileNotFoundError
      | Some (Inl frs) \<Rightarrow> Inr (foldr Yield frs Stop)
      | Some (Inr a) \<Rightarrow> Inl (LibraryError ''cannot identify image file''))"

definition demo_pillow :: "(rgba image option, rgba image option list + save_args) pillow" where
  "demo_pillow =
     \<lparr>src_size = (\<lambda>s. case s of None \<Rightarrow> (0, 0) | Some im \<Rightarrow> im_size im),
      src_info = (\<lambda>s. case s of None \<Rightarrow> Map.empty | Some im \<Rightarrow> info im),
      to_rgba = (\<lambda>s. case s of None \<Rightarrow> Inl (LibraryError ''image file is truncated'')
                       | Some im \<Rightarrow> Inr (pix im)),
      pieslice_cover = demo_pieslice,
      ellipse_cover = demo_ellipse,
      gaussian = (\<lambda>r im. Inr (demo_mean r im)),
      quantize = demo_quantize,
      blend = (\<lambda>old new m. old),
      image_open = demo_open,
      gif_save = (\<lambda>path a fs. (None, fs(path \<mapsto> Inr a)))\<rparr>"

text \<open>A frame of two pixels, with the band A at 128 and at 129.\<close>

definition threshold_frame :: "rgba image" where
  "threshold_frame =
     \<lparr>im_size = (2, 1), pix = (\<lambda>x y. (200, 20, 30, if x = 0 then 128 else 129)),
      info = Map.empty\<rparr>"

text \<open>A grey opaque frame of a given size.\<close>

definition grey_frame :: "nat \<times> nat \<Rightarrow> rgba image" where
  "grey_frame sz = \<lparr>im_size = sz, pix = (\<lambda>x y. (200, 200, 200, 255)), info = Map.empty\<rparr>"

text \<open>A world with one file to read, \<^verbatim>\<open>in.gif\<close>, holding the given frames.\<close>

definition demo_world ::
  "rgba image option list \<Rightarrow> (rgba image option list + save_args) world" where
  "demo_world frs = \<lparr>files = [''in.gif'' \<mapsto> Inl frs], stdout = []\<rparr>"

section \<open>mask\_rounded\_corners on image objects\<close>

text \<open>
  Python hands images over by reference, and two steps of \<^verbatim>\<open>mask_rounded_corners\<close> write
  into an image: the drawing into \<^verbatim>\<open>mask\<close> and \<^verbatim>\<open>putalpha\<close> on \<^verbatim>\<open>result\<close>. To say which
  objects they write into, the function is given a second time over a store of image
  objects: the RGBA images and the images of mode L, each addressed by its position. Every
  step that returns a new image in Pillow (\<^verbatim>\<open>convert\<close>, \<^verbatim>\<open>Image.new\<close>, \<^verbatim>\<open>filter\<close>, \<^verbatim>\<open>copy\<close>)
  allocates at the end of its list; the two writing steps update in place. A step that
  raises ends the function with its exception.
\<close>

record store =
  rgba_objs :: "rgba image list"
  l_objs :: "byte image list"

text \<open>
  The argument \<^verbatim>\<open>pil_img\<close>: a reference to an RGBA image of the store, or an image of
  another mode, which the function only converts.
\<close>

datatype 's pil_ref = Ref_RGBA nat | Val_Other 's

text \<open>
  A Python reference always has its object; for an address outside the store the model
  answers with an error.
\<close>

definition deref :: "store \<Rightarrow> 's pil_ref \<Rightarrow> error + 's pil_image" where
  "deref st p =
     (case p of
        Ref_RGBA a \<Rightarrow>
          if a < length (rgba_objs st) then Inr (RGBA (rgba_objs st ! a))
          else Inl (LibraryError ''no such object'')
      | Val_Other s \<Rightarrow> Inr (Other s))"

definition st_convert_RGBA ::
  "('s, 'f) pillow \<Rightarrow> store \<Rightarrow> 's pil_ref \<Rightarrow> error + store \<times> nat" where
  "st_convert_RGBA P st p =
     (case deref st p of
        Inl e \<Rightarrow> Inl e
      | Inr im \<Rightarrow>
          (case convert_RGBA P im of
             Inl e \<Rightarrow> Inl e
           | Inr r \<Rightarrow> Inr (st\<lparr>rgba_objs := rgba_objs st @ [r]\<rparr>, length (rgba_objs st))))"

definition st_Image_new_L :: "store \<Rightarrow> nat \<times> nat \<Rightarrow> byte \<Rightarrow> store \<times> nat" where
  "st_Image_new_L st sz color =
     (st\<lparr>l_objs := l_objs st @ [Image_new_L sz color]\<rparr>, length (l_objs st))"

definition st_rounded_rectangle ::
  "('s, 'f) pillow \<Rightarrow> store \<Rightarrow> nat \<Rightarrow> int \<times> int \<times> int \<times> int \<Rightarrow> int \<Rightarrow> byte \<Rightarrow> error + store" where
  "st_rounded_rectangle P st m xy radius fill =
     (case rounded_rectangle P xy radius fill (l_objs st ! m) of
        Inl e \<Rightarrow> Inl e
      | Inr im \<Rightarrow> Inr (st\<lparr>l_objs := (l_objs st)[m := im]\<rparr>))"

definition st_filter_GaussianBlur ::
  "('s, 'f) pillow \<Rightarrow> store \<Rightarrow> nat \<Rightarrow> int \<Rightarrow> error + store \<times> nat" where
  "st_filter_GaussianBlur P st m r =
     (case GaussianBlur P r (l_objs st ! m) of
        Inl e \<Rightarrow> Inl e
      | Inr im \<Rightarrow> Inr (st\<lparr>l_objs := l_objs st @ [im]\<rparr>, length (l_objs st)))"

definition st_copy :: "store \<Rightarrow> nat \<Rightarrow> store \<times> nat" where
  "st_copy st a = (st\<lparr>rgba_objs := rgba_objs st @ [rgba_objs st ! a]\<rparr>, length (rgba_objs st))"

definition st_putalpha :: "store \<Rightarrow> nat \<Rightarrow> nat \<Rightarrow> error + store" where
  "st_putalpha st a m =
     (case putalpha (rgba_objs st ! a) (l_objs st ! m) of
        Inl e \<Rightarrow> Inl e
      | Inr im \<Rightarrow> Inr (st\<lparr>rgba_objs := (rgba_objs st)[a := im]\<rparr>))"

definition mask_rounded_corners_st ::
  "('s, 'f) pillow \<Rightarrow> store \<Rightarrow> 's pil_ref \<Rightarrow> int \<Rightarrow> int \<Rightarrow> error + store \<times> nat" where
  "mask_rounded_corners_st P st pil_img corner_radius blur_radius =
     (case st_convert_RGBA P st pil_img of
        Inl e \<Rightarrow> Inl e
      | Inr (st1, pil_img') \<Rightarrow>
          (case im_size (rgba_objs st1 ! pil_img') of (w, h) \<Rightarrow>
             (case st_Image_new_L st1 (w, h) 0 of (st2, mask_im) \<Rightarrow>
                (case st_rounded_rectangle P st2 mask_im (0, 0, int w, int h) corner_radius 255 of
                   Inl e \<Rightarrow> Inl e
                 | Inr st3 \<Rightarrow>
                     (case (if blur_radius > 0
                            then st_filter_GaussianBlur P st3 mask_im blur_radius
                            else Inr (st3, mask_im)) of
                        Inl e \<Rightarrow> Inl e
                      | Inr (st4, mask_im') \<Rightarrow>
                          (case st_copy st4 pil_img' of (st5, result) \<Rightarrow>
                             (case st_putalpha st5 result mask_im' of
                                Inl e \<Rightarrow> Inl e
                              | Inr st6 \<Rightarrow> Inr (st6, result))))))))"

text \<open>A store that holds one grey frame of 4 by 4 and nothing else.\<close>

definition one_frame_store :: store where
  "one_frame_store = \<lparr>rgba_objs = [grey_frame (4, 4)], l_objs = []\<rparr>"

section \<open>Properties of the drawing\<close>

text \<open>
  Drawing keeps the size of the image. A rounded rectangle with a negative radius raises;
  with radius 0 it is the rectangle; with a positive radius whose diameter stays below
  both sides of the box it is the four quarter pie slices and the three rectangles; with
  a radius that is not negative it always returns.
\<close>

lemma paint_size: "im_size (paint c fill im) = im_size im"
  by (simp add: paint_def)

lemma paint_paint:
  "paint c2 fill (paint c1 fill im) = paint (\<lambda>x y. c1 x y \<or> c2 x y) fill im"
  by (cases im) (auto simp: paint_def fun_eq_iff)

lemma draw_rectangle_Inr:
  "valid_box xy \<Longrightarrow> draw_rectangle xy fill im = Inr (paint (rectangle_cover xy) fill im)"
  by (simp add: draw_rectangle_def)

lemma draw_pieslice_Inr:
  "valid_box xy \<Longrightarrow>
     draw_pieslice P xy start stop fill im = Inr (paint (pieslice_cover P xy start stop) fill im)"
  by (simp add: draw_pieslice_def)

lemma draw_rectangle_size: "draw_rectangle xy fill im = Inr m \<Longrightarrow> im_size m = im_size im"
  by (auto simp: draw_rectangle_def paint_size split: if_splits)

lemma draw_pieslice_size:
  "draw_pieslice P xy start stop fill im = Inr m \<Longrightarrow> im_size m = im_size im"
  by (auto simp: draw_pieslice_def paint_size split: if_splits)

lemma draw_ellipse_size: "draw_ellipse P xy fill im = Inr m \<Longrightarrow> im_size m = im_size im"
  by (auto simp: draw_ellipse_def paint_size split: if_splits)

lemma draw_parts_size: "draw_parts P parts fill im = Inr m \<Longrightarrow> im_size m = im_size im"
proof (induction parts arbitrary: im)
  case Nil
  then show ?case by simp
next
  case (Cons part parts)
  obtain xy start stop where part: "part = (xy, start, stop)" by (cases part)
  from Cons.prems obtain im' where
    d: "draw_pieslice P xy start stop fill im = Inr im'" and
    r: "draw_parts P parts fill im' = Inr m"
    by (auto simp: part split: sum.splits)
  from Cons.IH [OF r] draw_pieslice_size [OF d] show ?case by simp
qed

lemma rounded_rectangle_size:
  assumes "rounded_rectangle P xy radius fill im = Inr m"
  shows "im_size m = im_size im"
proof -
  obtain x0 y0 x1 y1 where xy: "xy = (x0, y0, x1, y1)" by (cases xy)
  show ?thesis
    using assms
    by (auto simp: xy rounded_rectangle_def Let_def
        dest!: draw_ellipse_size draw_rectangle_size draw_parts_size
        split: if_splits sum.splits)
qed

lemma rounded_rectangle_negative:
  assumes "radius < 0" and "x0 \<le> x1" and "y0 \<le> y1"
  shows "rounded_rectangle P (x0, y0, x1, y1) radius fill im = Inl ValueError"
  using assms
  by (simp add: rounded_rectangle_def Let_def corner_parts_def draw_pieslice_def valid_box_def)

lemma rounded_rectangle_zero:
  assumes "1 < x1 - x0" and "1 < y1 - y0"
  shows "rounded_rectangle P (x0, y0, x1, y1) 0 fill im =
           Inr (paint (rectangle_cover (x0, y0, x1, y1)) fill im)"
  using assms by (simp add: rounded_rectangle_def draw_rectangle_def valid_box_def)

lemma rounded_rectangle_quarters:
  assumes "0 < r" and "r * 2 < x1 - x0 - 1" and "r * 2 < y1 - y0 - 1"
  shows "rounded_rectangle P (x0, y0, x1, y1) r fill im =
           Inr (paint (quarters_cover P (x0, y0, x1, y1) r) fill im)"
proof -
  have c: "quarters_cover P (x0, y0, x1, y1) r =
      (\<lambda>x y. pieslice_cover P (x0, y0, x0 + r * 2, y0 + r * 2) 180 270 x y \<or>
        pieslice_cover P (x1 - r * 2, y0, x1, y0 + r * 2) 270 360 x y \<or>
        pieslice_cover P (x1 - r * 2, y1 - r * 2, x1, y1) 0 90 x y \<or>
        pieslice_cover P (x0, y1 - r * 2, x0 + r * 2, y1) 90 180 x y \<or>
        rectangle_cover (x0 + r + 1, y0, x1 - r - 1, y1) x y \<or>
        rectangle_cover (x0, y0 + r + 1, x0 + r, y1 - r - 1) x y \<or>
        rectangle_cover (x1 - r, y0 + r + 1, x1, y1 - r - 1) x y)"
    by (simp add: fun_eq_iff quarters_cover_def)
  show ?thesis
    using assms
    by (simp add: rounded_rectangle_def Let_def corner_parts_def draw_pieslice_def
        draw_rectangle_def valid_box_def paint_paint c disj_assoc)
qed

lemma rounded_rectangle_returns:
  assumes "0 \<le> radius" and "x0 \<le> x1" and "y0 \<le> y1"
  shows "\<exists>m. rounded_rectangle P (x0, y0, x1, y1) radius fill im = Inr m"
  using assms
  apply (auto simp: rounded_rectangle_def Let_def corner_parts_def draw_pieslice_def
      draw_rectangle_def draw_ellipse_def valid_box_def)
     apply presburger+
  done

section \<open>Properties of the two stages\<close>

text \<open>
  The mask has the size it was asked for, and it fails exactly when the radius of the
  corners is negative or the blur raises. \<^verbatim>\<open>mask_rounded_corners\<close> is the converted
  input with the mask as its band A; \<^verbatim>\<open>transparent_indexed_gif_frame\<close> is the
  quantised frame with the index 255 where the band A is at most 128.
\<close>

lemma convert_RGBA_size:
  "convert_RGBA P im = Inr r \<Longrightarrow> im_size r = pil_size P im"
  by (auto simp: convert_RGBA_def pil_size_def split: pil_image.splits sum.splits)

lemma GaussianBlur_size: "GaussianBlur P br m = Inr m' \<Longrightarrow> im_size m' = im_size m"
  by (auto simp: GaussianBlur_def split: sum.splits)

lemma corner_mask_size:
  assumes "corner_mask P sz cr br = Inr m"
  shows "im_size m = sz"
proof -
  from assms obtain m0 where
    m0: "rounded_rectangle P (0, 0, int (fst sz), int (snd sz)) cr 255 (Image_new_L sz 0) = Inr m0"
    and m: "(if br > 0 then GaussianBlur P br m0 else Inr m0) = Inr m"
    by (auto simp: corner_mask_def split: sum.splits)
  have "im_size m0 = sz"
    using rounded_rectangle_size [OF m0] by (simp add: Image_new_L_def)
  with m show ?thesis
    by (auto dest: GaussianBlur_size split: if_splits)
qed

lemma corner_mask_negative: "cr < 0 \<Longrightarrow> corner_mask P sz cr br = Inl ValueError"
  by (simp add: corner_mask_def rounded_rectangle_negative)

lemma corner_mask_sharp_returns: "0 \<le> cr \<Longrightarrow> \<exists>m. corner_mask P sz cr 0 = Inr m"
  using rounded_rectangle_returns [of cr 0 "int (fst sz)" 0 "int (snd sz)" P 255 "Image_new_L sz 0"]
  by (auto simp: corner_mask_def)

lemma corner_mask_no_blur: "br \<le> 0 \<Longrightarrow> corner_mask P sz cr br = corner_mask P sz cr 0"
  by (simp add: corner_mask_def split: sum.splits)

lemma corner_mask_blur:
  "0 < br \<Longrightarrow> corner_mask P sz cr br =
     (case corner_mask P sz cr 0 of Inl e \<Rightarrow> Inl e | Inr m \<Rightarrow> GaussianBlur P br m)"
  by (simp add: corner_mask_def split: sum.splits)

lemma corner_mask_zero:
  "1 < w \<Longrightarrow> 1 < h \<Longrightarrow>
     corner_mask P (w, h) 0 0 =
       Inr (paint (rectangle_cover (0, 0, int w, int h)) 255 (Image_new_L (w, h) 0))"
  by (simp add: corner_mask_def rounded_rectangle_zero)

lemma corner_mask_quarters:
  "0 < r \<Longrightarrow> r * 2 < int w - 1 \<Longrightarrow> r * 2 < int h - 1 \<Longrightarrow>
     corner_mask P (w, h) r 0 =
       Inr (paint (quarters_cover P (0, 0, int w, int h) r) 255 (Image_new_L (w, h) 0))"
  by (simp add: corner_mask_def rounded_rectangle_quarters)

lemma corner_mask_fails:
  "corner_mask P sz cr br = Inl e \<longleftrightarrow>
     cr < 0 \<and> e = ValueError \<or>
     0 \<le> cr \<and> 0 < br \<and> (\<exists>m. corner_mask P sz cr 0 = Inr m \<and> gaussian P br m = Inl e)"
proof (cases "cr < 0")
  case True
  have "corner_mask P sz cr br = Inl ValueError"
    by (rule corner_mask_negative [OF True])
  moreover have "\<not> 0 \<le> cr" using True by simp
  ultimately show ?thesis using True by auto
next
  case False
  then obtain m0 where m0: "corner_mask P sz cr 0 = Inr m0"
    using corner_mask_sharp_returns [of cr P sz] by auto
  have ex: "(\<exists>m. corner_mask P sz cr 0 = Inr m \<and> gaussian P br m = Inl e) \<longleftrightarrow>
      gaussian P br m0 = Inl e"
    by (simp add: m0)
  show ?thesis
  proof (cases "0 < br")
    case True
    have "corner_mask P sz cr br = GaussianBlur P br m0"
      using corner_mask_blur [OF True, of P sz cr] by (simp add: m0)
    moreover have "GaussianBlur P br m0 = Inl e \<longleftrightarrow> gaussian P br m0 = Inl e"
      by (simp add: GaussianBlur_def split: sum.splits)
    ultimately show ?thesis using False True by (simp only: ex) simp
  next
    case br: False
    have "corner_mask P sz cr br = Inr m0"
      using corner_mask_no_blur [of br P sz cr] br by (simp add: m0)
    then show ?thesis using False br by simp
  qed
qed

lemma corner_mask_sharp_of_blurred:
  "corner_mask P sz cr br = Inr m \<Longrightarrow> \<exists>m0. corner_mask P sz cr 0 = Inr m0"
  by (auto simp: corner_mask_def split: sum.splits)

lemma corner_mask_sharp_fails:
  "corner_mask P sz cr 0 = Inl e \<Longrightarrow> corner_mask P sz cr br = Inl e"
  by (auto simp: corner_mask_def split: sum.splits)

lemma mask_rounded_corners_eq:
  "mask_rounded_corners P im cr br =
     (case convert_RGBA P im of
        Inl e \<Rightarrow> Inl e
      | Inr r \<Rightarrow>
          (case corner_mask P (im_size r) cr br of
             Inl e \<Rightarrow> Inl e
           | Inr m \<Rightarrow>
               Inr (r\<lparr>pix := (\<lambda>x y. case pix r x y of (r', g, b, a) \<Rightarrow>
                                 (r', g, b, pix m x y))\<rparr>)))"
proof (cases "convert_RGBA P im")
  case (Inl e)
  then show ?thesis by (simp add: mask_rounded_corners_def)
next
  case r: (Inr r)
  obtain w h where wh: "im_size r = (w, h)" by (cases "im_size r")
  show ?thesis
  proof (cases "corner_mask P (w, h) cr br")
    case (Inl e)
    then show ?thesis
      by (auto simp: mask_rounded_corners_def r wh corner_mask_def split: sum.splits if_splits)
  next
    case (Inr m)
    have sz: "im_size m = im_size r"
      using corner_mask_size [OF Inr] wh by simp
    from Inr sz show ?thesis
      by (auto simp: mask_rounded_corners_def r wh corner_mask_def putalpha_def
          split: sum.splits if_splits)
  qed
qed

lemma transparent_indexed_gif_frame_eq:
  "transparent_indexed_gif_frame P f =
     Inr \<lparr>im_size = im_size f,
          pix = (\<lambda>x y. if alpha_of (pix f x y) \<le> 128 then 255
                        else q_index (quantize P 255 (convert_RGB f)) x y),
          info = (q_info (quantize P 255 (convert_RGB f)))(''transparency'' \<mapsto> 255),
          palette = q_palette (quantize P 255 (convert_RGB f))\<rparr>"
  by (auto simp: transparent_indexed_gif_frame_def paste_def Image_eval_def getchannel_A_def
      convert_P_adaptive_def convert_RGB_def alpha_of_def Let_def fun_eq_iff split: prod.splits)

lemma within_colors_255:
  "within_colors P \<Longrightarrow> q_index (quantize P 255 im) x y \<noteq> 255"
proof
  assume wc: "within_colors P" and eq: "q_index (quantize P 255 im) x y = 255"
  from wc have "unat (q_index (quantize P 255 im) x y) < 255"
    unfolding within_colors_def by simp
  with eq show False by simp
qed

lemma convert_RGB_putalpha:
  "convert_RGB (r\<lparr>pix := (\<lambda>x y. case pix r x y of (r', g, b, a) \<Rightarrow> (r', g, b, m x y))\<rparr>) =
     convert_RGB r"
  by (simp add: convert_RGB_def fun_eq_iff split: prod.splits)

lemma rounded_indexed_frame_eq:
  "rounded_indexed_frame P im cr br =
     (case convert_RGBA P im of
        Inl e \<Rightarrow> Inl e
      | Inr r \<Rightarrow>
          (case corner_mask P (im_size r) cr br of
             Inl e \<Rightarrow> Inl e
           | Inr m \<Rightarrow>
               Inr \<lparr>im_size = im_size r,
                    pix = (\<lambda>x y. if pix m x y \<le> 128 then 255
                                  else q_index (quantize P 255 (convert_RGB r)) x y),
                    info = (q_info (quantize P 255 (convert_RGB r)))(''transparency'' \<mapsto> 255),
                    palette = q_palette (quantize P 255 (convert_RGB r))\<rparr>))"
  by (simp add: rounded_indexed_frame_def mask_rounded_corners_eq transparent_indexed_gif_frame_eq
      convert_RGB_putalpha alpha_of_def fun_eq_iff split: sum.splits prod.splits)

lemma rounded_indexed_frame_pixel:
  assumes "convert_RGBA P im = Inr r" and "corner_mask P (im_size r) cr br = Inr m"
    and "x < fst (im_size r)" and "y < snd (im_size r)"
  shows "pixel_at (rounded_indexed_frame P im cr br) (x, y) =
           Inr (if pix m x y \<le> 128 then 255
                else q_index (quantize P 255 (convert_RGB r)) x y)"
  using assms by (simp add: rounded_indexed_frame_eq pixel_at_def getpixel_def)

lemma rounded_indexed_frame_fails:
  assumes "convert_RGBA P im = Inr r" and "corner_mask P (im_size r) cr br = Inl e"
  shows "pixel_at (rounded_indexed_frame P im cr br) xy = Inl e"
  using assms by (simp add: rounded_indexed_frame_eq pixel_at_def)

text \<open>
  The pixel in the middle of the frame lies in the middle rectangle of the rounded
  rectangle, whatever the rasteriser does with the corners: with a positive radius whose
  diameter stays below both sides and no blur, it is never transparent.
\<close>

lemma centre_painted:
  assumes "within_colors P" and "convert_RGBA P im = Inr r" and "im_size r = (w, h)"
    and "0 < cr" and "cr * 2 < int w - 1" and "cr * 2 < int h - 1"
  shows "\<exists>i. pixel_at (rounded_indexed_frame P im cr 0) (w div 2, h div 2) = Inr i \<and> i \<noteq> 255"
proof -
  have m: "corner_mask P (w, h) cr 0 =
      Inr (paint (quarters_cover P (0, 0, int w, int h) cr) 255 (Image_new_L (w, h) 0))"
    using assms(4,5,6) by (rule corner_mask_quarters)
  have inside: "w div 2 < w" "h div 2 < h" using assms(4,5,6) by auto
  have "rectangle_cover (0 + cr + 1, 0, int w - cr - 1, int h) (w div 2) (h div 2)"
    using assms(4,5,6) by (simp add: rectangle_cover_def zdiv_int) linarith
  then have painted: "pix (paint (quarters_cover P (0, 0, int w, int h) cr) 255
      (Image_new_L (w, h) 0)) (w div 2) (h div 2) = 255"
    using inside by (simp add: paint_def Image_new_L_def quarters_cover_def)
  have q: "q_index (quantize P 255 (convert_RGB r)) (w div 2) (h div 2) \<noteq> 255"
    by (rule within_colors_255 [OF assms(1)])
  have "pixel_at (rounded_indexed_frame P im cr 0) (w div 2, h div 2) =
      Inr (q_index (quantize P 255 (convert_RGB r)) (w div 2) (h div 2))"
    using rounded_indexed_frame_pixel [OF assms(2), of cr 0 _ "w div 2" "h div 2"] m painted
      assms(3) inside
    by simp
  with q show ?thesis by simp
qed

section \<open>Properties of the loop\<close>

text \<open>
  The loop only appends to the list of frames, and appends at least one frame when the
  iterator yields one.
\<close>

lemma process_frames_appends:
  "process_frames P it cr br acc = Inr frames \<Longrightarrow>
     \<exists>new. frames = acc @ new \<and> (it \<noteq> Stop \<longrightarrow> new \<noteq> [])"
proof (induction it arbitrary: acc)
  case Stop
  then show ?case by simp
next
  case (Yield frame rest)
  from Yield.prems obtain pal where
    rf: "round_frame P frame cr br = Inr pal" and
    rec: "process_frames P rest cr br (acc @ [pal]) = Inr frames"
    by (auto split: sum.splits)
  from Yield.IH [OF rec] obtain new where "frames = (acc @ [pal]) @ new" by blast
  then show ?case by simp
next
  case (Raise e)
  then show ?case by simp
qed

section \<open>Properties of the instance\<close>

lemma within_colors_demo: "within_colors demo_pillow"
  by (simp add: within_colors_def demo_pillow_def demo_quantize_def split: prod.splits)

lemma demo_convert: "convert_RGBA demo_pillow (RGBA f) = Inr f"
  by (simp add: convert_RGBA_def)

lemma demo_GaussianBlur: "GaussianBlur demo_pillow br m = Inr (m\<lparr>pix := demo_mean br m\<rparr>)"
  by (simp add: GaussianBlur_def demo_pillow_def)

lemma demo_corner_mask_returns:
  assumes "0 \<le> cr"
  shows "\<exists>m. corner_mask demo_pillow sz cr br = Inr m"
proof -
  from corner_mask_sharp_returns [OF assms] obtain m0
    where m0: "corner_mask demo_pillow sz cr 0 = Inr m0" by blast
  show ?thesis
  proof (cases "0 < br")
    case True
    then show ?thesis
      by (simp add: corner_mask_blur m0 demo_GaussianBlur)
  next
    case False
    then show ?thesis by (simp add: corner_mask_no_blur m0)
  qed
qed

lemma demo_round_frame_grey:
  assumes "0 \<le> cr"
  shows "\<exists>pal. round_frame demo_pillow (Some (grey_frame sz)) cr br = Inr pal"
proof -
  have c: "convert_RGBA demo_pillow (Other (Some (grey_frame sz))) = Inr (grey_frame sz)"
    by (simp add: convert_RGBA_def demo_pillow_def grey_frame_def)
  obtain m where "corner_mask demo_pillow (im_size (grey_frame sz)) cr br = Inr m"
    using demo_corner_mask_returns [OF assms] by blast
  then show ?thesis
    by (simp add: round_frame_def c mask_rounded_corners_eq demo_convert
        transparent_indexed_gif_frame_eq)
qed

lemma demo_round_frame_None:
  "round_frame demo_pillow None cr br = Inl (LibraryError ''image file is truncated'')"
  by (simp add: round_frame_def convert_RGBA_def demo_pillow_def)

lemma demo_index_grey:
  "q_index (quantize demo_pillow 255 (convert_RGB (grey_frame sz))) x y = 1"
  by (simp add: demo_pillow_def demo_quantize_def convert_RGB_def grey_frame_def)

lemma demo_covers:
  "pieslice_cover demo_pillow = demo_pieslice" "ellipse_cover demo_pillow = demo_ellipse"
  by (simp_all add: demo_pillow_def)

lemma clamp_coord_4:
  "clamp_coord 4 (-1) = 0" "clamp_coord 4 0 = 0" "clamp_coord 4 1 = 1" "clamp_coord 4 2 = 2"
  by (simp_all add: clamp_coord_def)

text \<open>
  The mask of a frame of 4 by 4 with radius 1: without the blur only the pixel (0, 0) of
  the upper left nine is unpainted; the mean of the instance takes it to 141.
\<close>

lemma demo_sharp_4:
  "\<exists>m. corner_mask demo_pillow (4, 4) 1 0 = Inr m \<and> im_size m = (4, 4) \<and>
     pix m 0 0 = 0 \<and> pix m (Suc 0) 0 = 255 \<and> pix m 2 0 = 255 \<and>
     pix m 0 (Suc 0) = 255 \<and> pix m (Suc 0) (Suc 0) = 255 \<and> pix m 2 (Suc 0) = 255 \<and>
     pix m 0 2 = 255 \<and> pix m (Suc 0) 2 = 255 \<and> pix m 2 2 = 255"
proof -
  have "corner_mask demo_pillow (4, 4) 1 0 =
      Inr (paint (quarters_cover demo_pillow (0, 0, int 4, int 4) 1) 255 (Image_new_L (4, 4) 0))"
    by (rule corner_mask_quarters) simp_all
  then show ?thesis
    by (simp add: paint_def Image_new_L_def quarters_cover_def demo_covers demo_pieslice_def
        demo_ellipse_def demo_sector_def rectangle_cover_def)
qed

lemma demo_blurred_4:
  "\<exists>m. corner_mask demo_pillow (4, 4) 1 1 = Inr m \<and> im_size m = (4, 4) \<and>
     pix m 0 0 = 141 \<and> pix m (Suc 0) (Suc 0) = 226"
proof -
  from demo_sharp_4 obtain m0 where m0: "corner_mask demo_pillow (4, 4) 1 0 = Inr m0"
    and sz: "im_size m0 = (4, 4)"
    and v: "pix m0 0 0 = 0" "pix m0 (Suc 0) 0 = 255" "pix m0 2 0 = 255"
      "pix m0 0 (Suc 0) = 255" "pix m0 (Suc 0) (Suc 0) = 255" "pix m0 2 (Suc 0) = 255"
      "pix m0 0 2 = 255" "pix m0 (Suc 0) 2 = 255" "pix m0 2 2 = 255"
    by blast
  have "corner_mask demo_pillow (4, 4) 1 1 = Inr (m0\<lparr>pix := demo_mean 1 m0\<rparr>)"
    using corner_mask_blur [of 1 demo_pillow "(4, 4)" 1] by (simp add: m0 demo_GaussianBlur)
  then show ?thesis
    by (simp add: sz demo_mean_def clamp_coord_4 v)
qed

section \<open>Properties of the function on image objects\<close>

text \<open>
  The function over the store computes what the function on values computes, and leaves
  the store it was given extended by the new objects: the converted input, the result,
  the mask and, under a positive \<^verbatim>\<open>blur_radius\<close>, the blurred mask.
\<close>

lemma list_update_last2: "(xs @ [a, b])[Suc (length xs) := c] = xs @ [a, c]"
  by (simp add: list_update_append)

lemma mask_rounded_corners_st_eq:
  "mask_rounded_corners_st P st p cr br =
     (case deref st p of
        Inl e \<Rightarrow> Inl e
      | Inr im \<Rightarrow>
          (case convert_RGBA P im of
             Inl e \<Rightarrow> Inl e
           | Inr r \<Rightarrow>
               (case corner_mask P (im_size r) cr 0 of
                  Inl e \<Rightarrow> Inl e
                | Inr m0 \<Rightarrow>
                    (case corner_mask P (im_size r) cr br of
                       Inl e \<Rightarrow> Inl e
                     | Inr m \<Rightarrow>
                         Inr (\<lparr>rgba_objs = rgba_objs st @
                                 [r, r\<lparr>pix := (\<lambda>x y. case pix r x y of (r', g, b, a) \<Rightarrow>
                                          (r', g, b, pix m x y))\<rparr>],
                               l_objs = l_objs st @ (if br > 0 then [m0, m] else [m0])\<rparr>,
                              Suc (length (rgba_objs st)))))))"
proof (cases "deref st p")
  case (Inl e)
  then show ?thesis by (simp add: mask_rounded_corners_st_def st_convert_RGBA_def)
next
  case (Inr im)
  show ?thesis
  proof (cases "convert_RGBA P im")
    case (Inl e)
    then show ?thesis using Inr by (simp add: mask_rounded_corners_st_def st_convert_RGBA_def)
  next
    case r: (Inr r)
    obtain w h where wh: "im_size r = (w, h)" by (cases "im_size r")
    show ?thesis
    proof (cases "corner_mask P (w, h) cr 0")
      case (Inl e)
      then have "rounded_rectangle P (0, 0, int w, int h) cr 255 (Image_new_L (w, h) 0) = Inl e"
        by (simp add: corner_mask_def split: sum.splits)
      with Inr r wh Inl show ?thesis
        by (cases st)
          (simp add: mask_rounded_corners_st_def st_convert_RGBA_def st_Image_new_L_def
            st_rounded_rectangle_def nth_append)
    next
      case m0: (Inr m0)
      then have rr: "rounded_rectangle P (0, 0, int w, int h) cr 255 (Image_new_L (w, h) 0) = Inr m0"
        by (simp add: corner_mask_def split: sum.splits)
      have sz0: "im_size m0 = (w, h)" using corner_mask_size [OF m0] .
      show ?thesis
      proof (cases "0 < br")
        case False
        then have same: "corner_mask P (w, h) cr br = Inr m0"
          using corner_mask_no_blur [of br P "(w, h)" cr] m0 by simp
        from False Inr r wh m0 rr sz0 same show ?thesis
          by (cases st)
            (simp add: mask_rounded_corners_st_def st_convert_RGBA_def st_Image_new_L_def
              st_rounded_rectangle_def st_copy_def st_putalpha_def putalpha_def nth_append
              list_update_last2)
      next
        case True
        then have blur: "corner_mask P (w, h) cr br = GaussianBlur P br m0"
          using corner_mask_blur [of br P "(w, h)" cr] m0 by simp
        show ?thesis
        proof (cases "GaussianBlur P br m0")
          case (Inl e)
          with True Inr r wh m0 rr blur show ?thesis
            by (cases st)
              (simp add: mask_rounded_corners_st_def st_convert_RGBA_def st_Image_new_L_def
                st_rounded_rectangle_def st_filter_GaussianBlur_def nth_append)
        next
          case m: (Inr m)
          have sz: "im_size m = (w, h)" using GaussianBlur_size [OF m] sz0 by simp
          from True Inr r wh m0 rr blur m sz show ?thesis
            by (cases st)
              (simp add: mask_rounded_corners_st_def st_convert_RGBA_def st_Image_new_L_def
                st_rounded_rectangle_def st_filter_GaussianBlur_def st_copy_def st_putalpha_def
                putalpha_def nth_append list_update_last2)
        qed
      qed
    qed
  qed
qed

section \<open>The claims\<close>

text \<open>
  C1 does not hold of the script. C1 says that for every \<^verbatim>\<open>corner_radius\<close> from 0 to half
  the smaller side of the frame, and \<^verbatim>\<open>blur_radius = 0\<close>, the four extreme corner pixels of
  the quantised frame have the transparency index 255. The script draws the rounded
  rectangle into the box \<^verbatim>\<open>(0, 0, w, h)\<close>. A box includes both of its corner points, so this
  box is one pixel wider and one pixel higher than the frame, whose last pixel is
  (w - 1, h - 1). With \<^verbatim>\<open>corner_radius = 1\<close> the pie slice of the bottom right corner has the
  box (w - 2, h - 2, w, h), and the centre of that box, the point where the two straight
  edges of the slice meet, is the bottom right pixel of the frame. When the rasteriser
  paints that point, the bottom right corner pixel of every frame of at least 4 by 4 is in
  the mask and the quantised frame has a colour index there, not 255.
\<close>

theorem corner_painted_at_radius_one:
  assumes "within_colors P" and "convert_RGBA P im = Inr r" and "im_size r = (w, h)"
    and "4 \<le> w" and "4 \<le> h"
    and "pieslice_cover P (int w - 2, int h - 2, int w, int h) 0 90 (w - 1) (h - 1)"
  shows "\<exists>i. pixel_at (rounded_indexed_frame P im 1 0) (w - 1, h - 1) = Inr i \<and> i \<noteq> 255"
proof -
  have m: "corner_mask P (w, h) 1 0 =
      Inr (paint (quarters_cover P (0, 0, int w, int h) 1) 255 (Image_new_L (w, h) 0))"
    using assms(4,5) by (intro corner_mask_quarters) simp_all
  have painted: "pix (paint (quarters_cover P (0, 0, int w, int h) 1) 255 (Image_new_L (w, h) 0))
      (w - 1) (h - 1) = 255"
    using assms(4,5,6) by (simp add: paint_def Image_new_L_def quarters_cover_def)
  have q: "q_index (quantize P 255 (convert_RGB r)) (w - 1) (h - 1) \<noteq> 255"
    by (rule within_colors_255 [OF assms(1)])
  have "pixel_at (rounded_indexed_frame P im 1 0) (w - 1, h - 1) =
      Inr (q_index (quantize P 255 (convert_RGB r)) (w - 1) (h - 1))"
    using rounded_indexed_frame_pixel [OF assms(2), of 1 0 _ "w - 1" "h - 1"] m painted assms(3,4,5)
    by simp
  with q show ?thesis by simp
qed

text \<open>
  An opaque frame of 100 by 100 with radius 1, under the instance of the library: the
  pixel (99, 99) has the colour index 1.
\<close>

theorem corner_painted_at_radius_one_witness:
  "within_colors demo_pillow \<and>
   2 * (1::int) \<le> min 100 100 \<and>
   demo_pieslice (98, 98, 100, 100) 0 90 99 99 \<and>
   pixel_at (rounded_indexed_frame demo_pillow (RGBA (grey_frame (100, 100))) 1 0) (99, 99) = Inr 1"
proof -
  have sz: "im_size (grey_frame (100, 100)) = (100, 100)" by (simp add: grey_frame_def)
  have c: "demo_pieslice (98, 98, 100, 100) 0 90 99 99"
    by (simp add: demo_pieslice_def demo_ellipse_def demo_sector_def)
  have "\<exists>i. pixel_at (rounded_indexed_frame demo_pillow (RGBA (grey_frame (100, 100))) 1 0)
      (100 - 1, 100 - 1) = Inr i \<and> i \<noteq> 255"
    by (rule corner_painted_at_radius_one [OF within_colors_demo demo_convert sz])
      (simp_all add: demo_covers c)
  then show ?thesis
    using c within_colors_demo
    by (auto simp: rounded_indexed_frame_eq demo_convert sz pixel_at_def getpixel_def
        demo_index_grey split: sum.splits if_splits)
qed

text \<open>
  C2. \<^verbatim>\<open>transparent_indexed_gif_frame\<close> gives a pixel of the frame the index 255 if and
  only if the band A of that pixel is at most 128, given that the quantiser asked for 255
  colours uses the indices below 255: a pixel with A = 128 gets 255, one with A = 129
  does not.
\<close>

theorem alpha_threshold:
  assumes "within_colors P" and "x < fst (im_size f)" and "y < snd (im_size f)"
  shows "(\<exists>i. pixel_at (transparent_indexed_gif_frame P f) (x, y) = Inr i) \<and>
         (pixel_at (transparent_indexed_gif_frame P f) (x, y) = Inr 255 \<longleftrightarrow>
            alpha_of (pix f x y) \<le> 128) \<and>
         (alpha_of (pix f x y) = 128 \<longrightarrow>
            pixel_at (transparent_indexed_gif_frame P f) (x, y) = Inr 255) \<and>
         (alpha_of (pix f x y) = 129 \<longrightarrow>
            pixel_at (transparent_indexed_gif_frame P f) (x, y) \<noteq> Inr 255)"
  using assms within_colors_255 [OF assms(1), of "convert_RGB f" x y]
  by (simp add: transparent_indexed_gif_frame_eq pixel_at_def getpixel_def)

text \<open>
The frame of two pixels, A = 128 and A = 129, under the instance of the library.
\<close>

theorem alpha_threshold_witness:
  "within_colors demo_pillow \<and>
   alpha_of (pix threshold_frame 0 0) = 128 \<and>
   pixel_at (transparent_indexed_gif_frame demo_pillow threshold_frame) (0, 0) = Inr 255 \<and>
   alpha_of (pix threshold_frame 1 0) = 129 \<and>
   pixel_at (transparent_indexed_gif_frame demo_pillow threshold_frame) (1, 0) \<noteq> Inr 255"
proof -
  have sz: "(0::nat) < fst (im_size threshold_frame)" "(1::nat) < fst (im_size threshold_frame)"
    "(0::nat) < snd (im_size threshold_frame)"
    by (simp_all add: threshold_frame_def)
  have a: "alpha_of (pix threshold_frame 0 0) = 128" "alpha_of (pix threshold_frame 1 0) = 129"
    by (simp_all add: threshold_frame_def alpha_of_def)
  show ?thesis
    using alpha_threshold [OF within_colors_demo sz(1) sz(3)]
      alpha_threshold [OF within_colors_demo sz(2) sz(3)] a within_colors_demo
    by simp
qed

text \<open>
  C3. The frame that \<^verbatim>\<open>transparent_indexed_gif_frame\<close> returns records 255, and nothing
  else, under the key \<^verbatim>\<open>transparency\<close> of its metadata; the quantiser, asked for 255
  colours, assigns the index 255 to no pixel, so that a pixel with the index 255 in the
  result is one whose band A was at most 128.
\<close>

theorem transparency_index_reserved:
  assumes "within_colors P"
  shows "\<exists>out. transparent_indexed_gif_frame P f = Inr out \<and>
           info out ''transparency'' = Some 255 \<and>
           (\<forall>i. info out ''transparency'' = Some i \<longrightarrow> i = 255) \<and>
           (\<forall>x y. q_index (quantize P 255 (convert_RGB f)) x y \<noteq> 255) \<and>
           (\<forall>x y. pix out x y = 255 \<longrightarrow> alpha_of (pix f x y) \<le> 128)"
  using within_colors_255 [OF assms, of "convert_RGB f"]
  by (simp add: transparent_indexed_gif_frame_eq)

text \<open>
The same frame: its first pixel is transparent, its second has a colour index.
\<close>

theorem transparency_index_reserved_witness:
  "within_colors demo_pillow \<and>
   (\<exists>out. transparent_indexed_gif_frame demo_pillow threshold_frame = Inr out \<and>
      info out ''transparency'' = Some 255 \<and>
      pix out 0 0 = 255 \<and> pix out 1 0 = 1)"
  using transparency_index_reserved [OF within_colors_demo, of threshold_frame] within_colors_demo
  by (simp add: transparent_indexed_gif_frame_eq threshold_frame_def alpha_of_def
      demo_pillow_def demo_quantize_def convert_RGB_def)

text \<open>
  C4 as stated, for every choice of \<^verbatim>\<open>corner_radius\<close>, fails for a negative one: the box
  of the first corner is then invalid, drawing it raises \<^verbatim>\<open>ValueError\<close>, and neither
  \<^verbatim>\<open>mask_rounded_corners\<close> nor the body of the loop returns a frame.
\<close>

theorem negative_radius_counterexample:
  "mask_rounded_corners demo_pillow (RGBA (grey_frame (4, 4))) (- 1) 0 = Inl ValueError \<and>
   round_frame demo_pillow (Some (grey_frame (4, 4))) (- 1) 0 = Inl ValueError"
  by (simp add: mask_rounded_corners_eq round_frame_def convert_RGBA_def demo_pillow_def
      corner_mask_negative)

text \<open>
  C4, amended. A stage that returns a frame returns one of the width and height of its
  input, and so does the body of the loop that runs both stages.
  \<^verbatim>\<open>mask_rounded_corners\<close> returns a frame only for a \<^verbatim>\<open>corner_radius\<close> that is not
  negative; it raises only when the conversion of its input to RGBA raises or the
  computation of the mask does, and the mask raises exactly when \<^verbatim>\<open>corner_radius\<close> is
  negative (\<^verbatim>\<open>ValueError\<close>) or \<^verbatim>\<open>blur_radius\<close> is positive and the blur raises.
  \<^verbatim>\<open>transparent_indexed_gif_frame\<close> always returns.
\<close>

theorem dimensions_preserved:
  "(case mask_rounded_corners P pil_img cr br of
      Inl e \<Rightarrow> convert_RGBA P pil_img = Inl e \<or>
               (\<exists>r. convert_RGBA P pil_img = Inr r \<and> corner_mask P (im_size r) cr br = Inl e)
    | Inr out \<Rightarrow> 0 \<le> cr \<and> im_size out = pil_size P pil_img) \<and>
   (case transparent_indexed_gif_frame P f of
      Inl e \<Rightarrow> False
    | Inr out \<Rightarrow> im_size out = im_size f) \<and>
   (case round_frame P frame cr br of
      Inl e \<Rightarrow> to_rgba P frame = Inl e \<or> corner_mask P (src_size P frame) cr br = Inl e
    | Inr out \<Rightarrow> 0 \<le> cr \<and> im_size out = src_size P frame) \<and>
   (corner_mask P sz cr br = Inl e' \<longleftrightarrow>
      cr < 0 \<and> e' = ValueError \<or>
      0 \<le> cr \<and> 0 < br \<and> (\<exists>m. corner_mask P sz cr 0 = Inr m \<and> gaussian P br m = Inl e'))"
proof (intro conjI)
  have neg: "corner_mask P s cr br = Inr m \<Longrightarrow> 0 \<le> cr" for s m
    using corner_mask_negative [of cr P s br] by (cases "cr < 0") auto
  show "case mask_rounded_corners P pil_img cr br of
      Inl e \<Rightarrow> convert_RGBA P pil_img = Inl e \<or>
               (\<exists>r. convert_RGBA P pil_img = Inr r \<and> corner_mask P (im_size r) cr br = Inl e)
    | Inr out \<Rightarrow> 0 \<le> cr \<and> im_size out = pil_size P pil_img"
    by (auto simp: mask_rounded_corners_eq dest: convert_RGBA_size neg split: sum.splits)
  show "case transparent_indexed_gif_frame P f of
      Inl e \<Rightarrow> False
    | Inr out \<Rightarrow> im_size out = im_size f"
    by (simp add: transparent_indexed_gif_frame_eq)
  show "case round_frame P frame cr br of
      Inl e \<Rightarrow> to_rgba P frame = Inl e \<or> corner_mask P (src_size P frame) cr br = Inl e
    | Inr out \<Rightarrow> 0 \<le> cr \<and> im_size out = src_size P frame"
    by (auto simp: round_frame_def mask_rounded_corners_eq transparent_indexed_gif_frame_eq
        convert_RGBA_def dest: neg split: sum.splits)
  show "corner_mask P sz cr br = Inl e' \<longleftrightarrow>
      cr < 0 \<and> e' = ValueError \<or>
      0 \<le> cr \<and> 0 < br \<and> (\<exists>m. corner_mask P sz cr 0 = Inr m \<and> gaussian P br m = Inl e')"
    by (rule corner_mask_fails)
qed

text \<open>
  A frame of 8 by 8 with radius 2 and blur 1, and the frame of two pixels: each stage
  returns a frame of the size of its input.
\<close>

theorem dimensions_preserved_witness:
  "(\<exists>out. mask_rounded_corners demo_pillow (RGBA (grey_frame (8, 8))) 2 1 = Inr out \<and>
      im_size out = (8, 8)) \<and>
   (\<exists>out. transparent_indexed_gif_frame demo_pillow threshold_frame = Inr out \<and>
      im_size out = (2, 1)) \<and>
   (\<exists>out. round_frame demo_pillow (Some (grey_frame (8, 8))) 2 1 = Inr out \<and>
      im_size out = (8, 8))"
proof -
  have sz: "im_size (grey_frame (8, 8)) = (8, 8)" "im_size threshold_frame = (2, 1)"
    by (simp_all add: grey_frame_def threshold_frame_def)
  obtain m where "corner_mask demo_pillow (8, 8) 2 1 = Inr m"
    using demo_corner_mask_returns [of 2 "(8, 8)" 1] by auto
  then obtain out1 where o1: "mask_rounded_corners demo_pillow (RGBA (grey_frame (8, 8))) 2 1 = Inr out1"
    by (simp add: mask_rounded_corners_eq convert_RGBA_def sz)
  obtain out2 where o2: "transparent_indexed_gif_frame demo_pillow threshold_frame = Inr out2"
    by (simp add: transparent_indexed_gif_frame_eq)
  obtain out3 where o3: "round_frame demo_pillow (Some (grey_frame (8, 8))) 2 1 = Inr out3"
    using demo_round_frame_grey [of 2 "(8, 8)" 1] by auto
  have src: "src_size demo_pillow (Some (grey_frame (8, 8))) = (8, 8)"
    by (simp add: demo_pillow_def sz)
  show ?thesis
    using dimensions_preserved [where P = demo_pillow and pil_img = "RGBA (grey_frame (8, 8))"
        and cr = 2 and br = 1 and f = threshold_frame and frame = "Some (grey_frame (8, 8))"]
    by (simp add: o1 o2 o3 pil_size_def sz src)
qed

text \<open>
  C5. If opening the input raises, or the iterator or the processing of any frame raises
  inside the loop, \<^verbatim>\<open>create_rounded_corners_gif\<close> ends with that exception and leaves the
  world as it found it: no file is written, since \<^verbatim>\<open>save\<close> is called only after the loop,
  and nothing is printed.
\<close>

theorem no_output_on_failure:
  assumes "image_open P (files w) input_gif = Inl e \<or>
           (\<exists>orig_gif. image_open P (files w) input_gif = Inr orig_gif \<and>
              process_frames P orig_gif corner_radius blur_radius [] = Inl e)"
  shows "create_rounded_corners_gif P input_gif output_gif corner_radius blur_radius w = (Some e, w)"
  using assms by (auto simp: create_rounded_corners_gif_def)

text \<open>
A file of two frames whose second frame cannot be loaded: nothing is written.
\<close>

theorem no_output_on_failure_witness:
  "process_frames demo_pillow (Yield (Some (grey_frame (8, 8))) (Yield None Stop)) 2 0 [] =
     Inl (LibraryError ''image file is truncated'') \<and>
   create_rounded_corners_gif demo_pillow ''in.gif'' ''out.gif'' 2 0
       (demo_world [Some (grey_frame (8, 8)), None]) =
     (Some (LibraryError ''image file is truncated''), demo_world [Some (grey_frame (8, 8)), None]) \<and>
   files (demo_world [Some (grey_frame (8, 8)), None]) ''out.gif'' = None"
proof -
  obtain pal where pal: "round_frame demo_pillow (Some (grey_frame (8, 8))) 2 0 = Inr pal"
    using demo_round_frame_grey [of 2 "(8, 8)" 0] by auto
  have pf: "process_frames demo_pillow (Yield (Some (grey_frame (8, 8))) (Yield None Stop)) 2 0 [] =
     Inl (LibraryError ''image file is truncated'')"
    by (simp add: pal demo_round_frame_None)
  have op: "image_open demo_pillow (files (demo_world [Some (grey_frame (8, 8)), None])) ''in.gif'' =
     Inr (Yield (Some (grey_frame (8, 8))) (Yield None Stop))"
    by (simp add: demo_pillow_def demo_open_def demo_world_def)
  have "create_rounded_corners_gif demo_pillow ''in.gif'' ''out.gif'' 2 0
       (demo_world [Some (grey_frame (8, 8)), None]) =
     (Some (LibraryError ''image file is truncated''), demo_world [Some (grey_frame (8, 8)), None])"
    by (rule no_output_on_failure) (use op pf in blast)
  then show ?thesis using pf by (simp add: demo_world_def)
qed

text \<open>
  C6 as stated, that the output file is written and the success line printed whenever at
  least one frame is decoded, fails when a later frame raises: with a first frame that is
  decoded and transformed and a second one that cannot be loaded, the function ends with
  the exception, writes no file and prints nothing.
\<close>

theorem later_frame_raises_counterexample:
  "(\<exists>pal. round_frame demo_pillow (Some (grey_frame (8, 8))) 2 0 = Inr pal) \<and>
   create_rounded_corners_gif demo_pillow ''in.gif'' ''out.gif'' 2 0
       (demo_world [Some (grey_frame (8, 8)), None]) =
     (Some (LibraryError ''image file is truncated''), demo_world [Some (grey_frame (8, 8)), None]) \<and>
   files (demo_world [Some (grey_frame (8, 8)), None]) ''out.gif'' = None \<and>
   stdout (demo_world [Some (grey_frame (8, 8)), None]) = []"
proof -
  obtain pal where pal: "round_frame demo_pillow (Some (grey_frame (8, 8))) 2 0 = Inr pal"
    using demo_round_frame_grey [of 2 "(8, 8)" 0] by auto
  have op: "image_open demo_pillow (files (demo_world [Some (grey_frame (8, 8)), None])) ''in.gif'' =
     Inr (Yield (Some (grey_frame (8, 8))) (Yield None Stop))"
    by (simp add: demo_pillow_def demo_open_def demo_world_def)
  have "create_rounded_corners_gif demo_pillow ''in.gif'' ''out.gif'' 2 0
       (demo_world [Some (grey_frame (8, 8)), None]) =
     (Some (LibraryError ''image file is truncated''), demo_world [Some (grey_frame (8, 8)), None])"
    by (simp add: create_rounded_corners_gif_def op pal demo_round_frame_None)
  then show ?thesis by (simp add: pal demo_world_def)
qed

text \<open>
  C6, amended. If the input decodes to zero frames, the function writes no file, prints
  the one line naming the input path, and raises nothing. If the iterator yields at least
  one frame and the loop and \<^verbatim>\<open>save\<close> finish without an exception, the list of frames is
  not empty, the files are those that the single call of \<^verbatim>\<open>save\<close> (first frame, the others
  appended, loop 0, disposal 2, no optimisation) leaves, and the one line printed is the
  success message with the output path.
\<close>

theorem empty_and_success_messages:
  "(image_open P (files w) input_gif = Inr Stop \<longrightarrow>
      create_rounded_corners_gif P input_gif output_gif corner_radius blur_radius w =
        (None, w\<lparr>stdout := stdout w @ [''No frames found in '' @ input_gif]\<rparr>)) \<and>
   (image_open P (files w) input_gif = Inr orig_gif \<and> orig_gif \<noteq> Stop \<and>
    process_frames P orig_gif corner_radius blur_radius [] = Inr frames \<and>
    gif_save P output_gif
      \<lparr>first_frame = frames ! 0, save_all = True, append_images = drop 1 frames,
       loop = 0, disposal = 2, optimize = False\<rparr> (files w) = (None, fs) \<longrightarrow>
      frames \<noteq> [] \<and>
      create_rounded_corners_gif P input_gif output_gif corner_radius blur_radius w =
        (None, w\<lparr>files := fs,
                 stdout := stdout w @ [''Saved rounded-corner GIF to: '' @ output_gif]\<rparr>))"
proof (intro conjI impI)
  assume "image_open P (files w) input_gif = Inr Stop"
  then show "create_rounded_corners_gif P input_gif output_gif corner_radius blur_radius w =
        (None, w\<lparr>stdout := stdout w @ [''No frames found in '' @ input_gif]\<rparr>)"
    by (simp add: create_rounded_corners_gif_def print_def)
next
  assume a: "image_open P (files w) input_gif = Inr orig_gif \<and> orig_gif \<noteq> Stop \<and>
    process_frames P orig_gif corner_radius blur_radius [] = Inr frames \<and>
    gif_save P output_gif
      \<lparr>first_frame = frames ! 0, save_all = True, append_images = drop 1 frames,
       loop = 0, disposal = 2, optimize = False\<rparr> (files w) = (None, fs)"
  then show ne: "frames \<noteq> []"
    using process_frames_appends [of P orig_gif corner_radius blur_radius "[]" frames] by auto
  with a show "create_rounded_corners_gif P input_gif output_gif corner_radius blur_radius w =
        (None, w\<lparr>files := fs,
                 stdout := stdout w @ [''Saved rounded-corner GIF to: '' @ output_gif]\<rparr>)"
    by (simp add: create_rounded_corners_gif_def print_def)
qed

text \<open>
An input without frames, and an input of one frame.
\<close>

theorem empty_and_success_messages_witness:
  "create_rounded_corners_gif demo_pillow ''in.gif'' ''out.gif'' 2 0 (demo_world []) =
     (None, \<lparr>files = [''in.gif'' \<mapsto> Inl []], stdout = [''No frames found in in.gif'']\<rparr>) \<and>
   (\<exists>pal. round_frame demo_pillow (Some (grey_frame (8, 8))) 2 0 = Inr pal \<and>
      create_rounded_corners_gif demo_pillow ''in.gif'' ''out.gif'' 2 0
          (demo_world [Some (grey_frame (8, 8))]) =
        (None,
         \<lparr>files = [''in.gif'' \<mapsto> Inl [Some (grey_frame (8, 8))],
                   ''out.gif'' \<mapsto> Inr \<lparr>first_frame = pal, save_all = True, append_images = [],
                                        loop = 0, disposal = 2, optimize = False\<rparr>],
          stdout = [''Saved rounded-corner GIF to: out.gif'']\<rparr>))"
proof -
  obtain pal where pal: "round_frame demo_pillow (Some (grey_frame (8, 8))) 2 0 = Inr pal"
    using demo_round_frame_grey [of 2 "(8, 8)" 0] by auto
  have op0: "image_open demo_pillow (files (demo_world [])) ''in.gif'' = Inr Stop"
    by (simp add: demo_pillow_def demo_open_def demo_world_def)
  have op1: "image_open demo_pillow (files (demo_world [Some (grey_frame (8, 8))])) ''in.gif'' =
     Inr (Yield (Some (grey_frame (8, 8))) Stop)"
    by (simp add: demo_pillow_def demo_open_def demo_world_def)
  have pf: "process_frames demo_pillow (Yield (Some (grey_frame (8, 8))) Stop) 2 0 [] = Inr [pal]"
    by (simp add: pal)
  have sv: "gif_save demo_pillow ''out.gif''
      \<lparr>first_frame = [pal] ! 0, save_all = True, append_images = drop 1 [pal],
       loop = 0, disposal = 2, optimize = False\<rparr> (files (demo_world [Some (grey_frame (8, 8))])) =
     (None, [''in.gif'' \<mapsto> Inl [Some (grey_frame (8, 8))],
                   ''out.gif'' \<mapsto> Inr \<lparr>first_frame = pal, save_all = True, append_images = [],
                                        loop = 0, disposal = 2, optimize = False\<rparr>])"
    by (simp add: demo_pillow_def demo_world_def)
  have e: "create_rounded_corners_gif demo_pillow ''in.gif'' ''out.gif'' 2 0 (demo_world []) =
     (None, \<lparr>files = [''in.gif'' \<mapsto> Inl []], stdout = [''No frames found in in.gif'']\<rparr>)"
    using empty_and_success_messages [of demo_pillow "demo_world []" "''in.gif''" "''out.gif''" 2 0]
      op0 by (simp add: demo_world_def)
  have s: "create_rounded_corners_gif demo_pillow ''in.gif'' ''out.gif'' 2 0
          (demo_world [Some (grey_frame (8, 8))]) =
        (None,
         \<lparr>files = [''in.gif'' \<mapsto> Inl [Some (grey_frame (8, 8))],
                   ''out.gif'' \<mapsto> Inr \<lparr>first_frame = pal, save_all = True, append_images = [],
                                        loop = 0, disposal = 2, optimize = False\<rparr>],
          stdout = [''Saved rounded-corner GIF to: out.gif'']\<rparr>)"
    using empty_and_success_messages [where P = demo_pillow
        and w = "demo_world [Some (grey_frame (8, 8))]" and input_gif = "''in.gif''"
        and output_gif = "''out.gif''" and corner_radius = 2 and blur_radius = 0
        and orig_gif = "Yield (Some (grey_frame (8, 8))) Stop" and frames = "[pal]"] op1 pf sv
    by (simp add: demo_world_def)
  show ?thesis using e s pal by blast
qed

text \<open>
  C7 as stated, that the quantised frame with a positive \<^verbatim>\<open>blur_radius\<close> is the one with
  \<^verbatim>\<open>blur_radius = 0\<close>, fails when the blur moves a mask value across the threshold: with
  the mean filter of the instance, on an opaque frame of 4 by 4 and radius 1, the corner
  pixel is unpainted (0) in the sharp mask and 141 in the blurred one, so it is
  transparent without the blur and has a colour index with it.
\<close>

theorem blur_changes_output_counterexample:
  "(0::int) < 1 \<and>
   pixel_at (rounded_indexed_frame demo_pillow (RGBA (grey_frame (4, 4))) 1 1) (0, 0) = Inr 1 \<and>
   pixel_at (rounded_indexed_frame demo_pillow (RGBA (grey_frame (4, 4))) 1 0) (0, 0) = Inr 255"
proof -
  have sz: "im_size (grey_frame (4, 4)) = (4, 4)" by (simp add: grey_frame_def)
  from demo_sharp_4 obtain ms where ms: "corner_mask demo_pillow (4, 4) 1 0 = Inr ms"
    and sharp: "pix ms 0 0 = 0" by blast
  from demo_blurred_4 obtain mb where mb: "corner_mask demo_pillow (4, 4) 1 1 = Inr mb"
    and blurred: "pix mb 0 0 = 141" by blast
  have b: "pixel_at (rounded_indexed_frame demo_pillow (RGBA (grey_frame (4, 4))) 1 1) (0, 0) = Inr 1"
    using rounded_indexed_frame_pixel [OF demo_convert [of "grey_frame (4, 4)"],
        where x = 0 and y = 0 and cr = 1 and br = 1 and m = mb]
    by (simp add: sz mb blurred demo_index_grey)
  have s: "pixel_at (rounded_indexed_frame demo_pillow (RGBA (grey_frame (4, 4))) 1 0) (0, 0) = Inr 255"
    using rounded_indexed_frame_pixel [OF demo_convert [of "grey_frame (4, 4)"],
        where x = 0 and y = 0 and cr = 1 and br = 0 and m = ms]
    by (simp add: sz ms sharp)
  show ?thesis using b s by simp
qed

text \<open>
  C7, amended. For every frame and both radii, a pixel of the quantised frame has the
  index 255 exactly when the mask, blurred if \<^verbatim>\<open>blur_radius\<close> is positive, is computed and
  is at most 128 there: no value in between is visible. The pixel with the blur equals
  the pixel without it exactly where the blurred and the sharp mask are on the same side
  of the threshold or, when the mask raises, where both raise the same exception.
\<close>

theorem blur_acts_through_threshold:
  assumes "within_colors P" and "convert_RGBA P im = Inr r"
    and "x < fst (im_size r)" and "y < snd (im_size r)"
  shows "(pixel_at (rounded_indexed_frame P im cr br) (x, y) = Inr 255 \<longleftrightarrow>
            (\<exists>m. corner_mask P (im_size r) cr br = Inr m \<and> pix m x y \<le> 128)) \<and>
         (pixel_at (rounded_indexed_frame P im cr br) (x, y) =
            pixel_at (rounded_indexed_frame P im cr 0) (x, y) \<longleftrightarrow>
          (case corner_mask P (im_size r) cr br of
             Inl e \<Rightarrow> corner_mask P (im_size r) cr 0 = Inl e
           | Inr mb \<Rightarrow>
               (\<exists>ms. corner_mask P (im_size r) cr 0 = Inr ms \<and>
                  (pix mb x y \<le> 128) = (pix ms x y \<le> 128))))"
proof -
  have q: "q_index (quantize P 255 (convert_RGB r)) x y \<noteq> 255"
    by (rule within_colors_255 [OF assms(1)])
  have px: "pixel_at (rounded_indexed_frame P im cr b) (x, y) =
      (case corner_mask P (im_size r) cr b of
         Inl e \<Rightarrow> Inl e
       | Inr m \<Rightarrow> Inr (if pix m x y \<le> 128 then 255
                       else q_index (quantize P 255 (convert_RGB r)) x y))" for b
    using assms(2,3,4) by (simp add: rounded_indexed_frame_eq pixel_at_def getpixel_def split: sum.splits)
  show ?thesis
    using q by (auto simp: px split: sum.splits)
qed

text \<open>
  The same frame: at (1, 1) the blur leaves the mask above the threshold and the pixel
  as it was, at (0, 0) it does not.
\<close>

theorem blur_acts_through_threshold_witness:
  "within_colors demo_pillow \<and>
   pixel_at (corner_mask demo_pillow (4, 4) 1 0) (1, 1) = Inr 255 \<and>
   pixel_at (corner_mask demo_pillow (4, 4) 1 1) (1, 1) = Inr 226 \<and>
   pixel_at (rounded_indexed_frame demo_pillow (RGBA (grey_frame (4, 4))) 1 1) (1, 1) =
     pixel_at (rounded_indexed_frame demo_pillow (RGBA (grey_frame (4, 4))) 1 0) (1, 1) \<and>
   pixel_at (corner_mask demo_pillow (4, 4) 1 0) (0, 0) = Inr 0 \<and>
   pixel_at (corner_mask demo_pillow (4, 4) 1 1) (0, 0) = Inr 141 \<and>
   pixel_at (rounded_indexed_frame demo_pillow (RGBA (grey_frame (4, 4))) 1 1) (0, 0) \<noteq>
     pixel_at (rounded_indexed_frame demo_pillow (RGBA (grey_frame (4, 4))) 1 0) (0, 0)"
proof -
  have sz: "im_size (grey_frame (4, 4)) = (4, 4)" by (simp add: grey_frame_def)
  have in0: "(0::nat) < fst (im_size (grey_frame (4, 4)))" "(0::nat) < snd (im_size (grey_frame (4, 4)))"
    and in1: "(1::nat) < fst (im_size (grey_frame (4, 4)))" "(1::nat) < snd (im_size (grey_frame (4, 4)))"
    by (simp_all add: sz)
  from demo_sharp_4 obtain ms where ms: "corner_mask demo_pillow (4, 4) 1 0 = Inr ms"
    and szs: "im_size ms = (4, 4)"
    and sharp: "pix ms 0 0 = 0" "pix ms (Suc 0) (Suc 0) = 255" by blast
  from demo_blurred_4 obtain mb where mb: "corner_mask demo_pillow (4, 4) 1 1 = Inr mb"
    and szb: "im_size mb = (4, 4)"
    and blurred: "pix mb 0 0 = 141" "pix mb (Suc 0) (Suc 0) = 226" by blast
  show ?thesis
    using blur_acts_through_threshold [OF within_colors_demo demo_convert in1, where cr = 1 and br = 1]
      blur_acts_through_threshold [OF within_colors_demo demo_convert in0, where cr = 1 and br = 1]
      within_colors_demo
    by (simp add: sz ms mb szs szb sharp blurred pixel_at_def getpixel_def)
qed

text \<open>
  C8. Applying \<^verbatim>\<open>mask_rounded_corners\<close> a second time, with the same \<^verbatim>\<open>corner_radius\<close> and
  \<^verbatim>\<open>blur_radius\<close>, to the frame it returned gives a frame with the same band A, for every
  blur radius: the mask depends on the size and the two radii only, and replaces the band
  A. The second result is in fact the first one.
\<close>

theorem remask_same_alpha:
  assumes "mask_rounded_corners P im cr br = Inr once"
  shows "\<exists>twice. mask_rounded_corners P (RGBA once) cr br = Inr twice \<and>
           getchannel_A twice = getchannel_A once \<and>
           (\<forall>x y. alpha_of (pix twice x y) = alpha_of (pix once x y)) \<and>
           twice = once"
proof -
  from assms obtain r m where r: "convert_RGBA P im = Inr r"
    and m: "corner_mask P (im_size r) cr br = Inr m"
    and once: "once = r\<lparr>pix := (\<lambda>x y. case pix r x y of (r', g, b, a) \<Rightarrow>
                            (r', g, b, pix m x y))\<rparr>"
    by (auto simp: mask_rounded_corners_eq split: sum.splits)
  have "mask_rounded_corners P (RGBA once) cr br = Inr once"
    using m by (simp add: mask_rounded_corners_eq convert_RGBA_def once fun_eq_iff split: prod.splits)
  then show ?thesis by simp
qed

text \<open>
The frame of two pixels, masked twice with both radii 1.
\<close>

theorem remask_same_alpha_witness:
  "(\<exists>once. mask_rounded_corners demo_pillow (RGBA threshold_frame) 1 1 = Inr once \<and>
      mask_rounded_corners demo_pillow (RGBA once) 1 1 = Inr once)"
proof -
  obtain m where "corner_mask demo_pillow (im_size threshold_frame) 1 1 = Inr m"
    using demo_corner_mask_returns [of 1 "im_size threshold_frame" 1] by auto
  then obtain once where o: "mask_rounded_corners demo_pillow (RGBA threshold_frame) 1 1 = Inr once"
    by (simp add: mask_rounded_corners_eq convert_RGBA_def)
  from remask_same_alpha [OF o] show ?thesis using o by auto
qed

text \<open>
  C9. When \<^verbatim>\<open>mask_rounded_corners\<close> returns, it returns a new object: its address is past
  every address of the store it was given, and every object that was in that store, the
  input frame included, is afterwards what it was before. The frame returned has the size
  of the input converted to RGBA, its band A is the computed mask at every pixel,
  whatever the input's band A was, and its red, green and blue are those of the converted
  input. It is the frame that the function on values computes, and when the function
  raises, it raises what the function on values raises.
\<close>

theorem mask_rounded_corners_new_frame:
  "case mask_rounded_corners_st P st pil_img cr br of
     Inl e \<Rightarrow>
       (case deref st pil_img of
          Inl e' \<Rightarrow> e = e'
        | Inr im \<Rightarrow> mask_rounded_corners P im cr br = Inl e)
   | Inr (st', result) \<Rightarrow>
       (\<exists>im r m. deref st pil_img = Inr im \<and> convert_RGBA P im = Inr r \<and>
          corner_mask P (im_size r) cr br = Inr m \<and>
          length (rgba_objs st) \<le> result \<and> result < length (rgba_objs st') \<and>
          take (length (rgba_objs st)) (rgba_objs st') = rgba_objs st \<and>
          take (length (l_objs st)) (l_objs st') = l_objs st \<and>
          mask_rounded_corners P im cr br = Inr (rgba_objs st' ! result) \<and>
          im_size (rgba_objs st' ! result) = im_size r \<and>
          (\<forall>x y. alpha_of (pix (rgba_objs st' ! result) x y) = pix m x y) \<and>
          (\<forall>x y. rgb_of (pix (rgba_objs st' ! result) x y) = rgb_of (pix r x y)))"
proof (cases "deref st pil_img")
  case (Inl e)
  then show ?thesis by (simp add: mask_rounded_corners_st_eq)
next
  case im: (Inr im)
  show ?thesis
  proof (cases "convert_RGBA P im")
    case (Inl e)
    then show ?thesis using im by (simp add: mask_rounded_corners_st_eq mask_rounded_corners_eq)
  next
    case r: (Inr r)
    show ?thesis
    proof (cases "corner_mask P (im_size r) cr br")
      case (Inl e)
      then show ?thesis
        using im r corner_mask_sharp_fails [of P "im_size r" cr _ br]
        by (auto simp: mask_rounded_corners_st_eq mask_rounded_corners_eq split: sum.splits)
    next
      case m: (Inr m)
      from corner_mask_sharp_of_blurred [OF m] obtain m0
        where m0: "corner_mask P (im_size r) cr 0 = Inr m0" by blast
      from im r m m0 show ?thesis
        by (simp add: mask_rounded_corners_st_eq mask_rounded_corners_eq nth_append
            alpha_of_def rgb_of_def split: prod.splits)
    qed
  qed
qed

text \<open>
  The grey frame of 4 by 4 at address 0, radius 1, no blur: the result is the object at
  address 2, the frame at address 0 is what it was, opaque, and the result has the band A
  0 at (0, 0) and 255 at (1, 1) and the same colours.
\<close>

theorem mask_rounded_corners_new_frame_witness:
  "case mask_rounded_corners_st demo_pillow one_frame_store (Ref_RGBA 0) 1 0 of
     Inl e \<Rightarrow> False
   | Inr (st', result) \<Rightarrow>
       result = 2 \<and> length (rgba_objs st') = 3 \<and>
       rgba_objs st' ! 0 = grey_frame (4, 4) \<and>
       pix (grey_frame (4, 4)) 0 0 = (200, 200, 200, 255) \<and>
       pix (rgba_objs st' ! result) 0 0 = (200, 200, 200, 0) \<and>
       pix (rgba_objs st' ! result) 1 1 = (200, 200, 200, 255)"
proof -
  have sz: "im_size (grey_frame (4, 4)) = (4, 4)" by (simp add: grey_frame_def)
  from demo_sharp_4 obtain ms where ms: "corner_mask demo_pillow (4, 4) 1 0 = Inr ms"
    and sharp: "pix ms 0 0 = 0" "pix ms (Suc 0) (Suc 0) = 255" by blast
  have g: "pix (grey_frame (4, 4)) x y = (200, 200, 200, 255)" for x y
    by (simp add: grey_frame_def)
  show ?thesis
    using mask_rounded_corners_new_frame
        [where P = demo_pillow and st = one_frame_store and pil_img = "Ref_RGBA 0" and cr = 1 and br = 0]
    by (simp add: mask_rounded_corners_st_eq deref_def one_frame_store_def demo_convert sz ms
        sharp g)
qed

end
